theory Spec2Isabelle
  imports Main "HOL-Library.AList" "HOL-Library.Multiset"
begin

section \<open>Data model\<close>

text \<open>
  A cell of a pandas DataFrame. The comparison code of \<^verbatim>\<open>src/comparison.py\<close> looks at a
  cell only through \<^verbatim>\<open>str(v)\<close>, \<^verbatim>\<open>pd.notna(v)\<close> and \<^verbatim>\<open>DataFrame.equals\<close>, so a cell is a
  tagged value: the missing value (NaN), an integer, a text or a boolean. Floating point
  numbers other than NaN are left out; in particular an integer always prints as an
  integer, also where pandas holds it as a float (in a numeric column with a missing value,
  or in a row of \<^verbatim>\<open>iterrows\<close> over numeric columns of which one is a float column), where
  Python prints \<^verbatim>\<open>1.0\<close> for \<open>1\<close>.
\<close>

datatype cell = Missing | IntV int | StrV string | BoolV bool

text \<open>
  A DataFrame: the header in order and the rows in order, every row holding one cell per
  column of the header (pandas frames are rectangular, and the readers of
  \<^verbatim>\<open>src/file_handler.py\<close> produce distinct column labels and the default row index
  \<open>0, 1, 2, ...\<close>).
\<close>

record dataframe =
  columns :: "string list"
  rows :: "cell list list"

definition wf_frame :: "dataframe \<Rightarrow> bool" where
  "wf_frame df \<longleftrightarrow>
     distinct (columns df) \<and> list_all (\<lambda>r. length r = length (columns df)) (rows df)"

datatype py_error = ValueError | IndexError

subsection \<open>Python primitives\<close>

definition digit_char :: "nat \<Rightarrow> char" where
  "digit_char d = ''0123456789'' ! d"

function str_nat :: "nat \<Rightarrow> string" where
  "str_nat n = (if n < 10 then [digit_char n] else str_nat (n div 10) @ [digit_char (n mod 10)])"
  by pat_completeness auto
termination
  by (relation "measure id") auto

declare str_nat.simps [simp del]

definition str_int :: "int \<Rightarrow> string" where
  "str_int i = (if i < 0 then CHR ''-'' # str_nat (nat (- i)) else str_nat (nat i))"

text \<open>\<^verbatim>\<open>str(v)\<close>: Python prints the float NaN as \<^verbatim>\<open>nan\<close>.\<close>

fun py_str :: "cell \<Rightarrow> string" where
  "py_str Missing = ''nan''"
| "py_str (IntV i) = str_int i"
| "py_str (StrV s) = s"
| "py_str (BoolV b) = (if b then ''True'' else ''False'')"

text \<open>\<^verbatim>\<open>pd.notna(v)\<close>\<close>

fun notna :: "cell \<Rightarrow> bool" where
  "notna Missing = False"
| "notna _ = True"

text \<open>
  \<^verbatim>\<open>set(xs)\<close> followed by an iteration or by \<^verbatim>\<open>list(...)\<close>. Python fixes no order for the
  elements of a set; the model lists each element once, in a fixed order.
\<close>

definition py_set :: "'a list \<Rightarrow> 'a list" where
  "py_set xs = remdups xs"

text \<open>\<^verbatim>\<open>xs.index(x)\<close>: the first position of \<open>x\<close>; \<open>None\<close> stands for the ValueError.\<close>

fun py_index :: "'a list \<Rightarrow> 'a \<Rightarrow> nat option" where
  "py_index [] x = None"
| "py_index (y # ys) x = (if y = x then Some 0 else map_option Suc (py_index ys x))"

text \<open>
  \<^verbatim>\<open>dict(pairs)\<close>: a later pair overwrites the value of an earlier one with the same key and
  keeps its place, which is what \<^const>\<open>AList.update\<close> does on an association list.
\<close>

definition py_dict :: "('k \<times> 'v) list \<Rightarrow> ('k \<times> 'v) list" where
  "py_dict kvs = fold (\<lambda>kv d. AList.update (fst kv) (snd kv) d) kvs []"

text \<open>\<^verbatim>\<open>range(i, stop, step)\<close> for a positive step.\<close>

function range_from :: "nat \<Rightarrow> nat \<Rightarrow> nat \<Rightarrow> nat list" where
  "range_from i stop step =
     (if step = 0 \<or> stop \<le> i then [] else i # range_from (i + step) stop step)"
  by pat_completeness auto
termination
  by (relation "measure (\<lambda>(i, stop, step). stop - i)") auto

declare range_from.simps [simp del]

text \<open>
  \<^verbatim>\<open>range(0, stop, step)\<close> with an arbitrary integer step: step \<open>0\<close> raises ValueError, a
  negative step from \<open>0\<close> up to a non-negative stop is the empty range.
\<close>

definition py_range :: "nat \<Rightarrow> int \<Rightarrow> py_error + nat list" where
  "py_range stop step =
     (if step = 0 then Inl ValueError
      else if step < 0 then Inr []
      else Inr (range_from 0 stop (nat step)))"

text \<open>
  \<^verbatim>\<open>row[col]\<close> and \<^verbatim>\<open>df.loc[idx, col]\<close>: the cell of a row under a column label. The code reads
  only labels it has checked to be in the header; a position a row does not have holds
  the missing value, as in a frame read from a ragged file.
\<close>

definition cell_at :: "string list \<Rightarrow> cell list \<Rightarrow> string \<Rightarrow> cell" where
  "cell_at cols row col = (case map_of (zip cols row) col of Some v \<Rightarrow> v | None \<Rightarrow> Missing)"

text \<open>\<^verbatim>\<open>df1.equals(df2)\<close>: same labels in the same order, same shape, same cells (NaN equal to NaN).\<close>

definition df_equals :: "dataframe \<Rightarrow> dataframe \<Rightarrow> bool" where
  "df_equals df1 df2 \<longleftrightarrow> columns df1 = columns df2 \<and> rows df1 = rows df2"

section \<open>The result of a sheet comparison\<close>

record column_differences_t =
  missing_columns :: "string list"
  extra_columns :: "string list"
  reordered_columns :: "string list"

record row_differences_t =
  count_diff :: int
  missing_rows :: "(string \<times> string) list list"
  extra_rows :: "(string \<times> string) list list"

text \<open>A value difference carries either \<^verbatim>\<open>"key"\<close> (keyed mode) or \<^verbatim>\<open>"row"\<close> (positional mode).\<close>

datatype locator = Key "(string \<times> string) list" | Row nat

record value_diff =
  loc :: locator
  column :: string
  value1 :: string
  value2 :: string

record error_details =
  column_differences :: column_differences_t
  row_differences :: row_differences_t
  value_differences :: "value_diff list"

text \<open>
  The lines of the two reports. Each constructor is one f-string of the source and carries
  the values the f-string formats.
\<close>

datatype report_line =
    MissingColumnsDetail "string list"  \<comment> \<open>\<^verbatim>\<open>Missing columns in second file: a, b\<close>\<close>
  | MissingColumnsCount nat             \<comment> \<open>\<^verbatim>\<open>Missing columns: n\<close>\<close>
  | ExtraColumnsDetail "string list"    \<comment> \<open>\<^verbatim>\<open>Extra columns in second file: a, b\<close>\<close>
  | ExtraColumnsCount nat               \<comment> \<open>\<^verbatim>\<open>Extra columns: n\<close>\<close>
  | ReorderedColumnsDetail "string list" \<comment> \<open>\<^verbatim>\<open>Reordered columns: a, b\<close>\<close>
  | ReorderedColumnsCount nat           \<comment> \<open>\<^verbatim>\<open>Reordered columns: n\<close>\<close>
  | RowCountDetail int nat nat          \<comment> \<open>\<^verbatim>\<open>Row count difference: d (n1 vs n2)\<close>\<close>
  | RowCountAbs nat                     \<comment> \<open>\<^verbatim>\<open>Row count difference: |d|\<close>\<close>
  | MissingRowsDetail nat               \<comment> \<open>\<^verbatim>\<open>Missing rows in second file: n\<close>\<close>
  | MissingRowsCount nat                \<comment> \<open>\<^verbatim>\<open>Missing rows: n\<close>\<close>
  | ExtraRowsDetail nat                 \<comment> \<open>\<^verbatim>\<open>Extra rows in second file: n\<close>\<close>
  | ExtraRowsCount nat                  \<comment> \<open>\<^verbatim>\<open>Extra rows: n\<close>\<close>
  | ValueDifferencesCount nat           \<comment> \<open>\<^verbatim>\<open>Value differences: n\<close>\<close>
  | KeyColumnsNotFound "string list"    \<comment> \<open>\<^verbatim>\<open>Key columns not found in both dataframes: [...]\<close>\<close>
  | UnableToCompareRows                 \<comment> \<open>\<^verbatim>\<open>Unable to compare rows: key columns missing\<close>\<close>
  | FileTypesDiffer "string option" "string option" \<comment> \<open>\<^verbatim>\<open>File types are different: t1 vs t2\<close>\<close>
  | SheetMissingDetail string           \<comment> \<open>\<^verbatim>\<open>Sheet 's' is in file 1 but missing in file 2\<close>\<close>
  | SheetMissingSummary string          \<comment> \<open>\<^verbatim>\<open>Sheet 's' is missing in file 2\<close>\<close>
  | SheetExtraDetail string             \<comment> \<open>\<^verbatim>\<open>Sheet 's' is in file 2 but missing in file 1\<close>\<close>
  | SheetExtraSummary string            \<comment> \<open>\<^verbatim>\<open>Extra sheet 's' in file 2\<close>\<close>

record sheet_result =
  detailed_report :: "report_line list"
  summary_report :: "report_line list"
  details :: error_details

definition init_result :: sheet_result where
  "init_result =
     \<lparr>detailed_report = [], summary_report = [],
      details = \<lparr>column_differences =
                   \<lparr>missing_columns = [], extra_columns = [], reordered_columns = []\<rparr>,
                 row_differences = \<lparr>count_diff = 0, missing_rows = [], extra_rows = []\<rparr>,
                 value_differences = []\<rparr>\<rparr>"

definition add_lines :: "report_line \<Rightarrow> report_line \<Rightarrow> sheet_result \<Rightarrow> sheet_result" where
  "add_lines d s r =
     r\<lparr>detailed_report := detailed_report r @ [d], summary_report := summary_report r @ [s]\<rparr>"

section \<open>compare_sheets\<close>

subsection \<open>Column differences\<close>

definition missing_cols :: "dataframe \<Rightarrow> dataframe \<Rightarrow> string list" where
  "missing_cols df1 df2 =
     filter (\<lambda>c. c \<notin> set (py_set (columns df2))) (py_set (columns df1))"

definition extra_cols :: "dataframe \<Rightarrow> dataframe \<Rightarrow> string list" where
  "extra_cols df1 df2 =
     filter (\<lambda>c. c \<notin> set (py_set (columns df1))) (py_set (columns df2))"

definition common_cols :: "dataframe \<Rightarrow> dataframe \<Rightarrow> string list" where
  "common_cols df1 df2 =
     filter (\<lambda>c. c \<in> set (py_set (columns df2))) (py_set (columns df1))"

definition set_missing_columns :: "string list \<Rightarrow> sheet_result \<Rightarrow> sheet_result" where
  "set_missing_columns xs r =
     r\<lparr>details := (details r)\<lparr>column_differences :=
          (column_differences (details r))\<lparr>missing_columns := xs\<rparr>\<rparr>\<rparr>"

definition set_extra_columns :: "string list \<Rightarrow> sheet_result \<Rightarrow> sheet_result" where
  "set_extra_columns xs r =
     r\<lparr>details := (details r)\<lparr>column_differences :=
          (column_differences (details r))\<lparr>extra_columns := xs\<rparr>\<rparr>\<rparr>"

definition set_reordered_columns :: "string list \<Rightarrow> sheet_result \<Rightarrow> sheet_result" where
  "set_reordered_columns xs r =
     r\<lparr>details := (details r)\<lparr>column_differences :=
          (column_differences (details r))\<lparr>reordered_columns := xs\<rparr>\<rparr>\<rparr>"

definition check_missing_columns :: "dataframe \<Rightarrow> dataframe \<Rightarrow> sheet_result \<Rightarrow> sheet_result" where
  "check_missing_columns df1 df2 r =
     (let m = missing_cols df1 df2
      in if m \<noteq> []
         then add_lines (MissingColumnsDetail m) (MissingColumnsCount (length m))
                (set_missing_columns m r)
         else r)"

definition check_extra_columns :: "dataframe \<Rightarrow> dataframe \<Rightarrow> sheet_result \<Rightarrow> sheet_result" where
  "check_extra_columns df1 df2 r =
     (let e = extra_cols df1 df2
      in if e \<noteq> []
         then add_lines (ExtraColumnsDetail e) (ExtraColumnsCount (length e))
                (set_extra_columns e r)
         else r)"

text \<open>
  The list comprehension of the source: a column of \<open>df1\<close> that is common to both frames
  and whose position in the header of \<open>df1\<close> is not its position in the header of \<open>df2\<close>.
  The conjunction is evaluated left to right, so \<^verbatim>\<open>index\<close> is taken of common columns only.
\<close>

definition reordered_cols :: "dataframe \<Rightarrow> dataframe \<Rightarrow> string list" where
  "reordered_cols df1 df2 =
     filter (\<lambda>col. col \<in> set (common_cols df1 df2) \<and>
                   py_index (columns df1) col \<noteq> py_index (columns df2) col)
       (columns df1)"

definition check_reordered_columns :: "dataframe \<Rightarrow> dataframe \<Rightarrow> sheet_result \<Rightarrow> sheet_result" where
  "check_reordered_columns df1 df2 r =
     (if columns df1 \<noteq> columns df2
      then (let rc = reordered_cols df1 df2
            in if rc \<noteq> []
               then add_lines (ReorderedColumnsDetail rc) (ReorderedColumnsCount (length rc))
                      (set_reordered_columns rc r)
               else r)
      else r)"

subsection \<open>Row count\<close>

definition set_count_diff :: "int \<Rightarrow> sheet_result \<Rightarrow> sheet_result" where
  "set_count_diff d r =
     r\<lparr>details := (details r)\<lparr>row_differences :=
          (row_differences (details r))\<lparr>count_diff := d\<rparr>\<rparr>\<rparr>"

definition check_row_count :: "dataframe \<Rightarrow> dataframe \<Rightarrow> sheet_result \<Rightarrow> sheet_result" where
  "check_row_count df1 df2 r =
     (let row_diff = int (length (rows df1)) - int (length (rows df2))
      in if row_diff \<noteq> 0
         then add_lines (RowCountDetail row_diff (length (rows df1)) (length (rows df2)))
                (RowCountAbs (nat \<bar>row_diff\<bar>)) (set_count_diff row_diff r)
         else r)"

subsection \<open>Value differences\<close>

definition set_value_differences :: "value_diff list \<Rightarrow> sheet_result \<Rightarrow> sheet_result" where
  "set_value_differences vds r = r\<lparr>details := (details r)\<lparr>value_differences := vds\<rparr>\<rparr>"

text \<open>The closing \<^verbatim>\<open>if value_diffs:\<close> of both modes.\<close>

definition record_value_diffs :: "value_diff list \<Rightarrow> sheet_result \<Rightarrow> sheet_result" where
  "record_value_diffs value_diffs r =
     (if value_diffs \<noteq> []
      then add_lines (ValueDifferencesCount (length value_diffs))
             (ValueDifferencesCount (length value_diffs))
             (set_value_differences value_diffs r)
      else r)"

subsection \<open>Keyed mode\<close>

definition has_all_keys :: "dataframe \<Rightarrow> dataframe \<Rightarrow> string list \<Rightarrow> bool" where
  "has_all_keys df1 df2 key_columns \<longleftrightarrow>
     list_all (\<lambda>col. col \<in> set (columns df1)) key_columns \<and>
     list_all (\<lambda>col. col \<in> set (columns df2)) key_columns"

text \<open>\<^verbatim>\<open>tuple(str(row[col]) for col in key_columns)\<close>\<close>

definition row_key :: "string list \<Rightarrow> string list \<Rightarrow> cell list \<Rightarrow> string list" where
  "row_key cols key_columns row = map (\<lambda>col. py_str (cell_at cols row col)) key_columns"

text \<open>
  The lookup dictionary of one frame: rows are entered in order under their key, a later
  row with the same key replacing the earlier one.
\<close>

definition build_dict :: "dataframe \<Rightarrow> string list \<Rightarrow> (string list \<times> cell list) list" where
  "build_dict df key_columns =
     fold (\<lambda>row d. AList.update (row_key (columns df) key_columns row) row d) (rows df) []"

definition common_keys :: "dataframe \<Rightarrow> dataframe \<Rightarrow> string list \<Rightarrow> string list list" where
  "common_keys df1 df2 kc =
     filter (\<lambda>k. k \<in> set (map fst (build_dict df2 kc))) (map fst (build_dict df1 kc))"

definition missing_keys :: "dataframe \<Rightarrow> dataframe \<Rightarrow> string list \<Rightarrow> string list list" where
  "missing_keys df1 df2 kc =
     filter (\<lambda>k. k \<notin> set (map fst (build_dict df2 kc))) (map fst (build_dict df1 kc))"

definition extra_keys :: "dataframe \<Rightarrow> dataframe \<Rightarrow> string list \<Rightarrow> string list list" where
  "extra_keys df1 df2 kc =
     filter (\<lambda>k. k \<notin> set (map fst (build_dict df1 kc))) (map fst (build_dict df2 kc))"

text \<open>
  The three sets of keys are listed in the order of the rows. The source slices
  \<^verbatim>\<open>list(missing_keys)[:100]\<close> and \<^verbatim>\<open>list(extra_keys)[:100]\<close> in the order of a Python set,
  so which 100 keys it enumerates is not fixed by the code; their number is.
\<close>

text \<open>\<^verbatim>\<open>dict(zip(key_columns, key))\<close>\<close>

definition key_descriptor :: "string list \<Rightarrow> string list \<Rightarrow> (string \<times> string) list" where
  "key_descriptor key_columns key = py_dict (zip key_columns key)"

definition set_missing_rows :: "(string \<times> string) list list \<Rightarrow> sheet_result \<Rightarrow> sheet_result" where
  "set_missing_rows xs r =
     r\<lparr>details := (details r)\<lparr>row_differences :=
          (row_differences (details r))\<lparr>missing_rows := xs\<rparr>\<rparr>\<rparr>"

definition set_extra_rows :: "(string \<times> string) list list \<Rightarrow> sheet_result \<Rightarrow> sheet_result" where
  "set_extra_rows xs r =
     r\<lparr>details := (details r)\<lparr>row_differences :=
          (row_differences (details r))\<lparr>extra_rows := xs\<rparr>\<rparr>\<rparr>"

definition track_missing_rows :: "string list \<Rightarrow> string list list \<Rightarrow> sheet_result \<Rightarrow> sheet_result" where
  "track_missing_rows key_columns mk r =
     (if mk \<noteq> []
      then add_lines (MissingRowsDetail (length mk)) (MissingRowsCount (length mk))
             (set_missing_rows (map (key_descriptor key_columns) (take 100 mk)) r)
      else r)"

definition track_extra_rows :: "string list \<Rightarrow> string list list \<Rightarrow> sheet_result \<Rightarrow> sheet_result" where
  "track_extra_rows key_columns ek r =
     (if ek \<noteq> []
      then add_lines (ExtraRowsDetail (length ek)) (ExtraRowsCount (length ek))
             (set_extra_rows (map (key_descriptor key_columns) (take 100 ek)) r)
      else r)"

text \<open>\<^verbatim>\<open>str(row[col]) if pd.notna(row[col]) else "NaN"\<close>\<close>

definition keyed_str :: "cell \<Rightarrow> string" where
  "keyed_str v = (if notna v then py_str v else ''NaN'')"

text \<open>
  The body of \<^verbatim>\<open>for key in chunk_keys\<close>: both rows are looked up under the key, which is
  in both dictionaries since it is a common key, and every common column is compared.
\<close>

definition keyed_row_diffs ::
  "dataframe \<Rightarrow> dataframe \<Rightarrow> string list \<Rightarrow> string list \<Rightarrow> value_diff list" where
  "keyed_row_diffs df1 df2 key_columns key =
     (case (map_of (build_dict df1 key_columns) key, map_of (build_dict df2 key_columns) key) of
        (Some row1, Some row2) \<Rightarrow>
          concat (map (\<lambda>col.
            (let val1 = keyed_str (cell_at (columns df1) row1 col);
                 val2 = keyed_str (cell_at (columns df2) row2 col)
             in if val1 \<noteq> val2
                then [\<lparr>loc = Key (key_descriptor key_columns key), column = col,
                       value1 = val1, value2 = val2\<rparr>]
                else [])) (common_cols df1 df2))
      | _ \<Rightarrow> [])"

definition keyed_chunk_diffs ::
  "dataframe \<Rightarrow> dataframe \<Rightarrow> string list \<Rightarrow> string list list \<Rightarrow> value_diff list" where
  "keyed_chunk_diffs df1 df2 key_columns chunk_keys =
     concat (map (keyed_row_diffs df1 df2 key_columns) chunk_keys)"

text \<open>
  The chunk loop over \<^verbatim>\<open>range(0, len(keys_list), chunk_size)\<close>, each chunk being the slice
  \<^verbatim>\<open>keys_list[i:i+chunk_size]\<close>; the differences of the chunks are appended in order.
\<close>

definition keyed_value_diffs ::
  "dataframe \<Rightarrow> dataframe \<Rightarrow> string list \<Rightarrow> int \<Rightarrow> nat list \<Rightarrow> value_diff list" where
  "keyed_value_diffs df1 df2 key_columns chunk_size starts =
     concat (map (\<lambda>i. keyed_chunk_diffs df1 df2 key_columns
                        (take (nat chunk_size) (drop i (common_keys df1 df2 key_columns))))
             starts)"

definition compare_keyed ::
  "dataframe \<Rightarrow> dataframe \<Rightarrow> string list \<Rightarrow> int \<Rightarrow> sheet_result \<Rightarrow> py_error + sheet_result" where
  "compare_keyed df1 df2 key_columns chunk_size r =
     (let r1 = track_missing_rows key_columns (missing_keys df1 df2 key_columns) r;
          r2 = track_extra_rows key_columns (extra_keys df1 df2 key_columns) r1
      in case py_range (length (common_keys df1 df2 key_columns)) chunk_size of
           Inl e \<Rightarrow> Inl e
         | Inr starts \<Rightarrow>
             Inr (record_value_diffs
                    (keyed_value_diffs df1 df2 key_columns chunk_size starts) r2))"

text \<open>The \<^verbatim>\<open>else\<close> branch of the key check: the key columns absent from either header.\<close>

definition missing_key_cols :: "dataframe \<Rightarrow> dataframe \<Rightarrow> string list \<Rightarrow> string list" where
  "missing_key_cols df1 df2 key_columns =
     filter (\<lambda>col. col \<notin> set (columns df1) \<or> col \<notin> set (columns df2)) key_columns"

definition report_missing_keys :: "dataframe \<Rightarrow> dataframe \<Rightarrow> string list \<Rightarrow> sheet_result \<Rightarrow> sheet_result" where
  "report_missing_keys df1 df2 key_columns r =
     add_lines (KeyColumnsNotFound (missing_key_cols df1 df2 key_columns)) UnableToCompareRows r"

subsection \<open>Positional mode\<close>

text \<open>
  One column of one chunk: \<^verbatim>\<open>astype(str)\<close> renders every cell of the two slices with
  \<^verbatim>\<open>str\<close>, the mask keeps the row labels where the two strings differ, and each of them
  gives a record with \<^verbatim>\<open>str(df1.loc[idx, col])\<close> and \<^verbatim>\<open>str(df2.loc[idx, col])\<close>. With the
  default row index the label \<open>idx\<close> is the row number, and \<open>idx\<close> is below the row count
  of both frames.
\<close>

definition positional_col_diffs ::
  "dataframe \<Rightarrow> dataframe \<Rightarrow> nat \<Rightarrow> nat \<Rightarrow> string \<Rightarrow> value_diff list" where
  "positional_col_diffs df1 df2 i chunk_end col =
     map (\<lambda>idx. \<lparr>loc = Row idx, column = col,
                 value1 = py_str (cell_at (columns df1) (rows df1 ! idx) col),
                 value2 = py_str (cell_at (columns df2) (rows df2 ! idx) col)\<rparr>)
       (filter (\<lambda>idx. py_str (cell_at (columns df1) (rows df1 ! idx) col) \<noteq>
                      py_str (cell_at (columns df2) (rows df2 ! idx) col))
          [i..<chunk_end])"

definition positional_chunk_diffs ::
  "dataframe \<Rightarrow> dataframe \<Rightarrow> nat \<Rightarrow> nat \<Rightarrow> value_diff list" where
  "positional_chunk_diffs df1 df2 i chunk_end =
     concat (map (positional_col_diffs df1 df2 i chunk_end) (common_cols df1 df2))"

definition min_rows :: "dataframe \<Rightarrow> dataframe \<Rightarrow> nat" where
  "min_rows df1 df2 = min (length (rows df1)) (length (rows df2))"

definition positional_value_diffs ::
  "dataframe \<Rightarrow> dataframe \<Rightarrow> int \<Rightarrow> nat list \<Rightarrow> value_diff list" where
  "positional_value_diffs df1 df2 chunk_size starts =
     concat (map (\<lambda>i. positional_chunk_diffs df1 df2 i
                        (min (i + nat chunk_size) (min_rows df1 df2))) starts)"

text \<open>
  The \<^verbatim>\<open>except\<close> clause around a chunk catches what pandas raises on frames with
  differing row labels or repeated column labels; on the frames of this model the body
  of the \<^verbatim>\<open>try\<close> raises nothing. The \<^verbatim>\<open>range\<close> itself is evaluated outside the \<^verbatim>\<open>try\<close>.
\<close>

definition compare_positional ::
  "dataframe \<Rightarrow> dataframe \<Rightarrow> int \<Rightarrow> sheet_result \<Rightarrow> py_error + sheet_result" where
  "compare_positional df1 df2 chunk_size r =
     (case py_range (min_rows df1 df2) chunk_size of
        Inl e \<Rightarrow> Inl e
      | Inr starts \<Rightarrow>
          Inr (record_value_diffs (positional_value_diffs df1 df2 chunk_size starts) r))"

subsection \<open>The whole function\<close>

text \<open>\<^verbatim>\<open>if key_columns:\<close> is false for \<^verbatim>\<open>None\<close> and for the empty list.\<close>

fun truthy :: "string list option \<Rightarrow> bool" where
  "truthy None = False"
| "truthy (Some ks) = (ks \<noteq> [])"

text \<open>The key columns named by a true \<^verbatim>\<open>key_columns\<close>.\<close>

fun key_list :: "string list option \<Rightarrow> string list" where
  "key_list None = []"
| "key_list (Some ks) = ks"

definition column_and_count_stage :: "dataframe \<Rightarrow> dataframe \<Rightarrow> sheet_result" where
  "column_and_count_stage df1 df2 =
     check_row_count df1 df2
       (check_reordered_columns df1 df2
          (check_extra_columns df1 df2
             (check_missing_columns df1 df2 init_result)))"

definition compare_sheets ::
  "dataframe \<Rightarrow> dataframe \<Rightarrow> string list option \<Rightarrow> int \<Rightarrow> py_error + sheet_result" where
  "compare_sheets df1 df2 key_columns chunk_size =
     (if df_equals df1 df2 then Inr init_result
      else (let r = column_and_count_stage df1 df2
            in if truthy key_columns
               then (if has_all_keys df1 df2 (key_list key_columns)
                     then compare_keyed df1 df2 (key_list key_columns) chunk_size r
                     else Inr (report_missing_keys df1 df2 (key_list key_columns) r))
               else compare_positional df1 df2 chunk_size r))"

section \<open>compare_files\<close>

text \<open>
  What \<^verbatim>\<open>read_file\<close> hands over: a workbook (\<^verbatim>\<open>"type": "excel"\<close>, the sheet names and the
  dictionary from sheet name to frame), a single table (\<^verbatim>\<open>"type": "csv"\<close>), or the initial
  dictionary of an unsupported file (\<^verbatim>\<open>"type": None\<close>).
\<close>

datatype file_data =
    ExcelData (sheet_names: "string list") (sheets: "(string \<times> dataframe) list")
  | CsvData dataframe
  | NoData

fun ftype :: "file_data \<Rightarrow> string option" where
  "ftype (ExcelData ns d) = Some ''excel''"
| "ftype (CsvData df) = Some ''csv''"
| "ftype NoData = None"

record file_error_details =
  missing_sheets :: "string list"
  extra_sheets :: "string list"
  sheet_column_differences :: "(string \<times> column_differences_t) list"
  sheet_row_differences :: "(string \<times> row_differences_t) list"
  sheet_value_differences :: "(string \<times> value_diff list) list"

record files_result =
  file_detailed_report :: "report_line list"
  file_summary_report :: "report_line list"
  file_details :: file_error_details

definition init_files_result :: files_result where
  "init_files_result =
     \<lparr>file_detailed_report = [], file_summary_report = [],
      file_details = \<lparr>missing_sheets = [], extra_sheets = [], sheet_column_differences = [],
                       sheet_row_differences = [], sheet_value_differences = []\<rparr>\<rparr>"

text \<open>
  The truth value of the two inner dictionaries of a sheet result: each has three keys
  whatever the lists under them hold, and a non-empty dictionary is true.
\<close>

definition col_diffs_truthy :: "column_differences_t \<Rightarrow> bool" where
  "col_diffs_truthy cd = True"

definition row_diffs_truthy :: "row_differences_t \<Rightarrow> bool" where
  "row_diffs_truthy rd = True"

text \<open>The three guarded assignments \<^verbatim>\<open>error_details[category][name] = ...\<close>.\<close>

definition update_error_details ::
  "string \<Rightarrow> error_details \<Rightarrow> file_error_details \<Rightarrow> file_error_details" where
  "update_error_details name sd fd =
     (let fd1 = (if col_diffs_truthy (column_differences sd)
                 then fd\<lparr>sheet_column_differences :=
                        AList.update name (column_differences sd) (sheet_column_differences fd)\<rparr>
                 else fd);
          fd2 = (if row_diffs_truthy (row_differences sd)
                 then fd1\<lparr>sheet_row_differences :=
                        AList.update name (row_differences sd) (sheet_row_differences fd1)\<rparr>
                 else fd1)
      in if value_differences sd \<noteq> []
         then fd2\<lparr>sheet_value_differences :=
                AList.update name (value_differences sd) (sheet_value_differences fd2)\<rparr>
         else fd2)"

definition extend_reports :: "sheet_result \<Rightarrow> files_result \<Rightarrow> files_result" where
  "extend_reports sr res =
     res\<lparr>file_detailed_report := file_detailed_report res @ detailed_report sr,
         file_summary_report := file_summary_report res @ summary_report sr\<rparr>"

text \<open>
  The handling of one finished sheet of a workbook, under
  \<^verbatim>\<open>if any(sheet_error_details.values())\<close>.
\<close>

definition merge_sheet :: "string \<Rightarrow> sheet_result \<Rightarrow> files_result \<Rightarrow> files_result" where
  "merge_sheet sheet sr res =
     (if col_diffs_truthy (column_differences (details sr)) \<or>
         row_diffs_truthy (row_differences (details sr)) \<or>
         value_differences (details sr) \<noteq> []
      then (let res1 = extend_reports sr res
            in res1\<lparr>file_details := update_error_details sheet (details sr) (file_details res1)\<rparr>)
      else res)"

text \<open>
  One common sheet: it is compared when both dictionaries hold it, with the defaults
  \<^verbatim>\<open>key_columns=None\<close> and \<^verbatim>\<open>chunk_size=10000\<close> of \<^verbatim>\<open>compare_sheets\<close>; an exception of the
  comparison is caught when the future's result is read, and the sheet is then left out.
  The sheets run on a thread pool and are merged as they finish; the model takes them in
  the order of the set of common sheets.
\<close>

definition compare_common_sheet ::
  "(string \<times> dataframe) list \<Rightarrow> (string \<times> dataframe) list \<Rightarrow> string \<Rightarrow> files_result \<Rightarrow> files_result" where
  "compare_common_sheet d1 d2 sheet res =
     (case (map_of d1 sheet, map_of d2 sheet) of
        (Some df1, Some df2) \<Rightarrow>
          (case compare_sheets df1 df2 None 10000 of
             Inr sr \<Rightarrow> merge_sheet sheet sr res
           | Inl e \<Rightarrow> res)
      | _ \<Rightarrow> res)"

definition note_missing_sheets :: "string list \<Rightarrow> files_result \<Rightarrow> files_result" where
  "note_missing_sheets ms res =
     (if ms \<noteq> []
      then res\<lparr>file_detailed_report := file_detailed_report res @ map SheetMissingDetail ms,
               file_summary_report := file_summary_report res @ map SheetMissingSummary ms,
               file_details := (file_details res)\<lparr>missing_sheets := ms\<rparr>\<rparr>
      else res)"

definition note_extra_sheets :: "string list \<Rightarrow> files_result \<Rightarrow> files_result" where
  "note_extra_sheets es res =
     (if es \<noteq> []
      then res\<lparr>file_detailed_report := file_detailed_report res @ map SheetExtraDetail es,
               file_summary_report := file_summary_report res @ map SheetExtraSummary es,
               file_details := (file_details res)\<lparr>extra_sheets := es\<rparr>\<rparr>
      else res)"

text \<open>
  The workbook branch. \<^verbatim>\<open>ThreadPoolExecutor(max_workers=min(8, len(common_sheets)))\<close>
  raises ValueError when there is no common sheet.
\<close>

definition compare_excel ::
  "string list \<Rightarrow> (string \<times> dataframe) list \<Rightarrow> string list \<Rightarrow> (string \<times> dataframe) list \<Rightarrow>
   py_error + files_result" where
  "compare_excel names1 d1 names2 d2 =
     (let sheets1 = py_set names1;
          sheets2 = py_set names2;
          missing = filter (\<lambda>s. s \<notin> set sheets2) sheets1;
          extra = filter (\<lambda>s. s \<notin> set sheets1) sheets2;
          common = filter (\<lambda>s. s \<in> set sheets2) sheets1;
          res = note_extra_sheets extra (note_missing_sheets missing init_files_result)
      in if common = [] then Inl ValueError
         else Inr (fold (compare_common_sheet d1 d2) common res))"

text \<open>The single-table branch: the one comparison is merged under the name \<^verbatim>\<open>data\<close>.\<close>

definition compare_csv :: "dataframe \<Rightarrow> dataframe \<Rightarrow> py_error + files_result" where
  "compare_csv df1 df2 =
     (case compare_sheets df1 df2 None 10000 of
        Inl e \<Rightarrow> Inl e
      | Inr sr \<Rightarrow>
          (let res1 = extend_reports sr init_files_result
           in Inr (res1\<lparr>file_details :=
                     update_error_details ''data'' (details sr) (file_details res1)\<rparr>)))"

fun compare_same_type :: "file_data \<Rightarrow> file_data \<Rightarrow> py_error + files_result" where
  "compare_same_type (ExcelData names1 d1) (ExcelData names2 d2) = compare_excel names1 d1 names2 d2"
| "compare_same_type (CsvData df1) (CsvData df2) = compare_csv df1 df2"
| "compare_same_type _ _ = Inr init_files_result"

definition compare_files :: "file_data \<Rightarrow> file_data \<Rightarrow> py_error + files_result" where
  "compare_files data1 data2 =
     (if ftype data1 \<noteq> ftype data2
      then Inr (init_files_result
                  \<lparr>file_detailed_report := [FileTypesDiffer (ftype data1) (ftype data2)],
                   file_summary_report := [FileTypesDiffer (ftype data1) (ftype data2)]\<rparr>)
      else compare_same_type data1 data2)"

section \<open>The highlighters\<close>

text \<open>
  \<^verbatim>\<open>highlight_differences_excel\<close> and \<^verbatim>\<open>highlight_differences_csv\<close> of
  \<^verbatim>\<open>src/highlighting.py\<close> build a workbook that shows the first file with the differences
  coloured. Both rebind the list of value differences of a sheet before they use it:
  \<^verbatim>\<open>if len(value_diffs) > 1000: value_diffs = value_diffs[:1000]\<close>.
\<close>

definition highlight_limit :: "value_diff list \<Rightarrow> value_diff list" where
  "highlight_limit value_diffs =
     (if length value_diffs > 1000 then take 1000 value_diffs else value_diffs)"

subsection \<open>Worksheets\<close>

text \<open>
  What the highlighters write with openpyxl: a worksheet is the collection of the cells
  that were touched, each with its value, its font (bold or not), its fill (one of the
  four colours of the module) and its comment. The comments all carry the same author,
  which is left out.
\<close>

datatype fill_color = RED_FILL | YELLOW_FILL | GREEN_FILL | BLUE_FILL

record ws_cell =
  cell_value :: "string option"
  cell_bold :: bool
  cell_fill :: "fill_color option"
  cell_comment :: "string option"

definition blank_cell :: ws_cell where
  "blank_cell = \<lparr>cell_value = None, cell_bold = False, cell_fill = None, cell_comment = None\<rparr>"

type_synonym worksheet = "((nat \<times> nat) \<times> ws_cell) list"

text \<open>
  \<^verbatim>\<open>worksheet.cell(row=r, column=c)\<close> returns the cell at that place and creates it when
  the sheet does not have it yet; the four assignments to a cell of the source.
\<close>

definition ws_cell_at :: "worksheet \<Rightarrow> nat \<Rightarrow> nat \<Rightarrow> ws_cell" where
  "ws_cell_at ws row col = (case map_of ws (row, col) of Some c \<Rightarrow> c | None \<Rightarrow> blank_cell)"

definition set_value :: "nat \<Rightarrow> nat \<Rightarrow> string \<Rightarrow> worksheet \<Rightarrow> worksheet" where
  "set_value row col v ws = AList.update (row, col) ((ws_cell_at ws row col)\<lparr>cell_value := Some v\<rparr>) ws"

definition set_bold :: "nat \<Rightarrow> nat \<Rightarrow> worksheet \<Rightarrow> worksheet" where
  "set_bold row col ws = AList.update (row, col) ((ws_cell_at ws row col)\<lparr>cell_bold := True\<rparr>) ws"

definition set_fill :: "nat \<Rightarrow> nat \<Rightarrow> fill_color \<Rightarrow> worksheet \<Rightarrow> worksheet" where
  "set_fill row col color ws =
     AList.update (row, col) ((ws_cell_at ws row col)\<lparr>cell_fill := Some color\<rparr>) ws"

definition set_comment :: "nat \<Rightarrow> nat \<Rightarrow> string \<Rightarrow> worksheet \<Rightarrow> worksheet" where
  "set_comment row col text ws =
     AList.update (row, col) ((ws_cell_at ws row col)\<lparr>cell_comment := Some text\<rparr>) ws"

text \<open>
  \<^verbatim>\<open>worksheet.max_row\<close> and \<^verbatim>\<open>worksheet.max_column\<close>: the largest row and column that hold
  a cell, \<open>1\<close> on a sheet without cells.
\<close>

definition max_row :: "worksheet \<Rightarrow> nat" where
  "max_row ws = fold max (map (\<lambda>c. fst (fst c)) ws) 1"


subsection \<open>The stages shared by the two highlighters\<close>

text \<open>
  \<^verbatim>\<open>all_cols = list(set(list(df1.columns) + list(df2.columns)))\<close>, the dictionary
  \<^verbatim>\<open>col_indices\<close> from a column to its place in the sheet, the bold header row and the
  rows of the first file from row 2 on.
\<close>

definition all_cols :: "dataframe \<Rightarrow> dataframe \<Rightarrow> string list" where
  "all_cols df1 df2 = py_set (columns df1 @ columns df2)"

definition col_indices :: "string list \<Rightarrow> (string \<times> nat) list" where
  "col_indices cols = map (\<lambda>(i, col). (col, i + 1)) (enumerate 0 cols)"

definition write_header :: "string list \<Rightarrow> worksheet \<Rightarrow> worksheet" where
  "write_header cols ws =
     fold (\<lambda>(i, col) ws. set_bold 1 (i + 1) (set_value 1 (i + 1) col ws)) (enumerate 0 cols) ws"

definition write_data :: "dataframe \<Rightarrow> (string \<times> nat) list \<Rightarrow> worksheet \<Rightarrow> worksheet" where
  "write_data df ci ws =
     fold (\<lambda>(i, row) ws.
        fold (\<lambda>col ws. case map_of ci col of
                          Some c \<Rightarrow> set_value (i + 2) c (py_str (cell_at (columns df) row col)) ws
                        | None \<Rightarrow> ws)
          (columns df) ws)
       (enumerate 0 (rows df)) ws"


text \<open>
  Column differences: a missing column is filled red and an extra column green over the
  rows \<open>1\<close> to \<^verbatim>\<open>max_row\<close>, the header cell of a reordered column is filled blue.
\<close>

definition fill_column :: "fill_color \<Rightarrow> nat \<Rightarrow> worksheet \<Rightarrow> worksheet" where
  "fill_column color c ws = fold (\<lambda>row ws. set_fill row c color ws) [1..<Suc (max_row ws)] ws"

definition highlight_column_differences ::
  "(string \<times> nat) list \<Rightarrow> column_differences_t \<Rightarrow> worksheet \<Rightarrow> worksheet" where
  "highlight_column_differences ci col_diffs ws =
     (let ws1 = fold (\<lambda>col ws. case map_of ci col of
                                  Some c \<Rightarrow> fill_column RED_FILL c ws | None \<Rightarrow> ws)
                  (missing_columns col_diffs) ws;
          ws2 = fold (\<lambda>col ws. case map_of ci col of
                                  Some c \<Rightarrow> fill_column GREEN_FILL c ws | None \<Rightarrow> ws)
                  (extra_columns col_diffs) ws1
      in if reordered_columns col_diffs \<noteq> []
         then fold (\<lambda>col ws. case map_of ci col of
                                Some c \<Rightarrow> set_fill 1 c BLUE_FILL ws | None \<Rightarrow> ws)
                (reordered_columns col_diffs) ws2
         else ws2)"

text \<open>
  Row differences, for the list format that compare_sheets produces (the
  \<^verbatim>\<open>isinstance(..., dict)\<close> branches are for an older format the comparison no longer
  writes): the first row of the frame that agrees with a key descriptor on every key
  column it has is filled red (missing rows, found in the first frame) or written below the
  rows of the first file and filled green (extra rows, found in the second frame).
\<close>

definition row_matches :: "string list \<Rightarrow> cell list \<Rightarrow> (string \<times> string) list \<Rightarrow> bool" where
  "row_matches cols row row_info =
     list_all (\<lambda>(k, v). \<not> (k \<in> set cols \<and> py_str (cell_at cols row k) \<noteq> v)) row_info"

definition find_row :: "dataframe \<Rightarrow> (string \<times> string) list \<Rightarrow> (nat \<times> cell list) option" where
  "find_row df row_info =
     find (\<lambda>(i, row). row_matches (columns df) row row_info) (enumerate 0 (rows df))"

definition highlight_missing_rows ::
  "dataframe \<Rightarrow> (string \<times> nat) list \<Rightarrow> (string \<times> string) list list \<Rightarrow> worksheet \<Rightarrow> worksheet" where
  "highlight_missing_rows df1 ci missing ws =
     fold (\<lambda>row_info ws. case find_row df1 row_info of
              Some (i, row) \<Rightarrow>
                fold (\<lambda>col ws. case map_of ci col of
                                  Some c \<Rightarrow> set_fill (i + 2) c RED_FILL ws | None \<Rightarrow> ws)
                  (columns df1) ws
            | None \<Rightarrow> ws)
       missing ws"

definition highlight_extra_rows ::
  "dataframe \<Rightarrow> dataframe \<Rightarrow> (string \<times> nat) list \<Rightarrow> (string \<times> string) list list \<Rightarrow>
   worksheet \<Rightarrow> worksheet" where
  "highlight_extra_rows df1 df2 ci extra ws =
     fold (\<lambda>row_info ws. case find_row df2 row_info of
              Some (i, row) \<Rightarrow>
                fold (\<lambda>col ws. case map_of ci col of
                          Some c \<Rightarrow>
                            set_fill (i + length (rows df1) + 2) c GREEN_FILL
                              (set_value (i + length (rows df1) + 2) c
                                 (py_str (cell_at (columns df2) row col)) ws)
                        | None \<Rightarrow> ws)
                  (columns df2) ws
            | None \<Rightarrow> ws)
       extra ws"

definition highlight_row_differences ::
  "dataframe \<Rightarrow> dataframe \<Rightarrow> (string \<times> nat) list \<Rightarrow> row_differences_t \<Rightarrow> worksheet \<Rightarrow> worksheet" where
  "highlight_row_differences df1 df2 ci row_diffs ws =
     highlight_extra_rows df1 df2 ci (extra_rows row_diffs)
       (highlight_missing_rows df1 ci (missing_rows row_diffs) ws)"

text \<open>
  Value differences. Each record is entered in \<^verbatim>\<open>diff_lookup\<close> under the string of its
  locator (\<^verbatim>\<open>"|".join\<close> of \<^verbatim>\<open>k=v\<close> for a key, \<^verbatim>\<open>str(row)\<close> for a row number) and under its
  column, unless the sheet does not have the column.
\<close>

fun py_join :: "string \<Rightarrow> string list \<Rightarrow> string" where
  "py_join sep [] = []"
| "py_join sep [x] = x"
| "py_join sep (x # y # ys) = x @ sep @ py_join sep (y # ys)"

fun is_key :: "value_diff \<Rightarrow> bool" where
  "is_key d = (case loc d of Key kv \<Rightarrow> True | Row n \<Rightarrow> False)"

definition diff_str_key :: "value_diff \<Rightarrow> string" where
  "diff_str_key d =
     (case loc d of
        Key kv \<Rightarrow> py_join ''|'' (map (\<lambda>(k, v). k @ ''='' @ v) kv)
      | Row n \<Rightarrow> str_nat n)"

definition lookup_add ::
  "string \<Rightarrow> string \<Rightarrow> string \<times> string \<Rightarrow> (string \<times> (string \<times> string \<times> string) list) list \<Rightarrow>
   (string \<times> (string \<times> string \<times> string) list) list" where
  "lookup_add str_key col vals diff_lookup =
     AList.update str_key
       (AList.update col vals (case map_of diff_lookup str_key of Some cols \<Rightarrow> cols | None \<Rightarrow> []))
       diff_lookup"

definition build_diff_lookup ::
  "(string \<times> nat) list \<Rightarrow> value_diff list \<Rightarrow> (string \<times> (string \<times> string \<times> string) list) list" where
  "build_diff_lookup ci value_diffs =
     fold (\<lambda>d diff_lookup.
             if column d \<in> set (map fst ci)
             then lookup_add (diff_str_key d) (column d) (value1 d, value2 d) diff_lookup
             else diff_lookup)
       value_diffs []"

text \<open>
  A cell with a value difference is filled yellow and gets a comment of two lines,
  \<^verbatim>\<open>Value in file 1: ...\<close> and \<^verbatim>\<open>Value in file 2: ...\<close>.
\<close>

definition comment_text :: "string \<Rightarrow> string \<Rightarrow> string" where
  "comment_text v1 v2 = ''Value in file 1: '' @ v1 @ [CHR 0x0A] @ ''Value in file 2: '' @ v2"

definition mark_cells ::
  "(string \<times> nat) list \<Rightarrow> nat \<Rightarrow> (string \<times> string \<times> string) list \<Rightarrow> worksheet \<Rightarrow> worksheet" where
  "mark_cells ci row_idx cols ws =
     fold (\<lambda>(col_name, v1, v2) ws. case map_of ci col_name of
              Some col_idx \<Rightarrow>
                set_comment row_idx col_idx (comment_text v1 v2)
                  (set_fill row_idx col_idx YELLOW_FILL ws)
            | None \<Rightarrow> ws)
       cols ws"

text \<open>
  Differences located by key: the key columns are those of the first record with a key,
  or the first column of the first frame when that record names none (which raises
  IndexError on a frame without columns); a row of the first frame is found by the string
  of its key.
\<close>

definition key_to_row :: "dataframe \<Rightarrow> string list \<Rightarrow> (string \<times> nat) list" where
  "key_to_row df1 key_cols =
     fold (\<lambda>(i, row) d.
             AList.update
               (py_join ''|''
                  (map (\<lambda>col. col @ ''='' @ py_str (cell_at (columns df1) row col))
                     (filter (\<lambda>col. col \<in> set (columns df1)) key_cols)))
               i d)
       (enumerate 0 (rows df1)) []"

definition key_columns_of :: "dataframe \<Rightarrow> value_diff list \<Rightarrow> py_error + string list" where
  "key_columns_of df1 value_diffs =
     (let key_cols = (case find is_key value_diffs of
                        Some d \<Rightarrow> (case loc d of Key kv \<Rightarrow> map fst kv | Row n \<Rightarrow> [])
                      | None \<Rightarrow> [])
      in if key_cols = []
         then (case columns df1 of [] \<Rightarrow> Inl IndexError | c # cs \<Rightarrow> Inr [c])
         else Inr key_cols)"

definition mark_key_based ::
  "dataframe \<Rightarrow> (string \<times> nat) list \<Rightarrow> string list \<Rightarrow>
   (string \<times> (string \<times> string \<times> string) list) list \<Rightarrow> worksheet \<Rightarrow> worksheet" where
  "mark_key_based df1 ci key_cols diff_lookup ws =
     fold (\<lambda>(key, cols) ws. case map_of (key_to_row df1 key_cols) key of
              Some i \<Rightarrow> mark_cells ci (i + 2) cols ws
            | None \<Rightarrow> ws)
       diff_lookup ws"

text \<open>
  Differences located by row number: \<^verbatim>\<open>int(key)\<close> succeeds on the strings that stand for a
  row number; on every other string of \<^verbatim>\<open>diff_lookup\<close> (those of a key, which hold \<open>=\<close>
  or are empty) it raises ValueError, which the source catches to skip the entry.
\<close>

definition digit_value :: "char \<Rightarrow> nat option" where
  "digit_value c = py_index ''0123456789'' c"

definition py_int :: "string \<Rightarrow> nat option" where
  "py_int s =
     (if s \<noteq> [] \<and> list_all (\<lambda>c. digit_value c \<noteq> None) s
      then Some (fold (\<lambda>c n. 10 * n + (case digit_value c of Some d \<Rightarrow> d | None \<Rightarrow> 0)) s 0)
      else None)"

definition mark_row_based ::
  "(string \<times> nat) list \<Rightarrow> (string \<times> (string \<times> string \<times> string) list) list \<Rightarrow>
   worksheet \<Rightarrow> worksheet" where
  "mark_row_based ci diff_lookup ws =
     fold (\<lambda>(key, cols) ws. case py_int key of
              Some row \<Rightarrow> mark_cells ci (row + 2) cols ws
            | None \<Rightarrow> ws)
       diff_lookup ws"

text \<open>
  The whole stage. The list of the sheet is cut to its first 1,000 records first
  (\<^const>\<open>highlight_limit\<close>), and the rest of the stage works on the cut list.
\<close>

definition highlight_value_differences ::
  "dataframe \<Rightarrow> (string \<times> nat) list \<Rightarrow> value_diff list \<Rightarrow> worksheet \<Rightarrow> py_error + worksheet" where
  "highlight_value_differences df1 ci sheet_diffs ws =
     (let value_diffs = highlight_limit sheet_diffs;
          diff_lookup = build_diff_lookup ci value_diffs
      in if list_ex is_key value_diffs
         then (case key_columns_of df1 value_diffs of
                 Inl e \<Rightarrow> Inl e
               | Inr key_cols \<Rightarrow>
                   Inr (mark_row_based ci diff_lookup
                          (mark_key_based df1 ci key_cols diff_lookup ws)))
         else Inr (mark_row_based ci diff_lookup ws))"

subsection \<open>The two highlighters\<close>

text \<open>
  The summary sheet (the colour legend, placed first in the workbook), the messages the
  functions can send to the user interface (all of them about a file that cannot be read
  or written), and the outcome of a run: the messages, the workbook built, and whether the
  output path is returned (\<^verbatim>\<open>None\<close> otherwise).
\<close>

definition summary_sheet :: worksheet where
  "summary_sheet =
     [((1, 1), \<lparr>cell_value = Some ''Color Legend'', cell_bold = True,
                cell_fill = None, cell_comment = None\<rparr>),
      ((2, 1), \<lparr>cell_value = Some ''Missing in second file'', cell_bold = False,
                cell_fill = Some RED_FILL, cell_comment = None\<rparr>),
      ((3, 1), \<lparr>cell_value = Some ''Value differences'', cell_bold = False,
                cell_fill = Some YELLOW_FILL, cell_comment = None\<rparr>),
      ((4, 1), \<lparr>cell_value = Some ''Extra in second file'', cell_bold = False,
                cell_fill = Some GREEN_FILL, cell_comment = None\<rparr>),
      ((5, 1), \<lparr>cell_value = Some ''Order mismatch'', cell_bold = False,
                cell_fill = Some BLUE_FILL, cell_comment = None\<rparr>)]"

datatype st_message =
    ErrorReadingFirstExcel | ErrorReadingSecondExcel
  | ErrorReadingFirstCsv | ErrorReadingSecondCsv
  | ErrorSaving

record highlight_output =
  st_messages :: "st_message list"
  workbook :: "(string \<times> worksheet) list"
  returned_path :: bool

definition save_workbook :: "(string \<times> worksheet) list \<Rightarrow> bool \<Rightarrow> highlight_output" where
  "save_workbook wss save_ok =
     (if save_ok
      then \<lparr>st_messages = [], workbook = (''Summary'', summary_sheet) # wss, returned_path = True\<rparr>
      else \<lparr>st_messages = [ErrorSaving], workbook = (''Summary'', summary_sheet) # wss,
            returned_path = False\<rparr>)"

text \<open>
  \<^verbatim>\<open>highlight_differences_csv\<close>. The two files are read again by the function; a file
  that cannot be read is \<open>None\<close> here, and \<open>save_ok\<close> says whether \<^verbatim>\<open>wb.save\<close> succeeds.
\<close>

definition csv_data_sheet ::
  "dataframe \<Rightarrow> dataframe \<Rightarrow> file_error_details \<Rightarrow> py_error + worksheet" where
  "csv_data_sheet df1 df2 error_details =
     (let ci = col_indices (all_cols df1 df2);
          ws0 = write_data df1 ci (write_header (all_cols df1 df2) []);
          ws1 = (case map_of (sheet_column_differences error_details) ''data'' of
                   Some col_diffs \<Rightarrow> highlight_column_differences ci col_diffs ws0
                 | None \<Rightarrow> ws0);
          ws2 = (case map_of (sheet_row_differences error_details) ''data'' of
                   Some row_diffs \<Rightarrow> highlight_row_differences df1 df2 ci row_diffs ws1
                 | None \<Rightarrow> ws1)
      in case map_of (sheet_value_differences error_details) ''data'' of
           Some sheet_diffs \<Rightarrow> highlight_value_differences df1 ci sheet_diffs ws2
         | None \<Rightarrow> Inr ws2)"

definition highlight_differences_csv ::
  "dataframe option \<Rightarrow> dataframe option \<Rightarrow> file_error_details \<Rightarrow> bool \<Rightarrow>
   py_error + highlight_output" where
  "highlight_differences_csv file1 file2 error_details save_ok =
     (case file1 of
        None \<Rightarrow> Inr \<lparr>st_messages = [ErrorReadingFirstCsv], workbook = [], returned_path = False\<rparr>
      | Some df1 \<Rightarrow>
          (case file2 of
             None \<Rightarrow> Inr \<lparr>st_messages = [ErrorReadingSecondCsv], workbook = [],
                          returned_path = False\<rparr>
           | Some df2 \<Rightarrow>
               (case csv_data_sheet df1 df2 error_details of
                  Inl e \<Rightarrow> Inl e
                | Inr ws \<Rightarrow> Inr (save_workbook [(''Data'', ws)] save_ok))))"






section \<open>Notions used in the statements and proofs\<close>

text \<open>
  What a result of a comparison by position looks like: no row is enumerated as missing or
  extra, and every value difference is located by a row number.
\<close>

definition positional_details :: "error_details \<Rightarrow> bool" where
  "positional_details d \<longleftrightarrow>
     missing_rows (row_differences d) = [] \<and> extra_rows (row_differences d) = [] \<and>
     (\<forall>vd \<in> set (value_differences d). \<exists>n. loc vd = Row n)"

definition positional_files :: "file_error_details \<Rightarrow> bool" where
  "positional_files fd \<longleftrightarrow>
     (\<forall>(s, rd) \<in> set (sheet_row_differences fd). missing_rows rd = [] \<and> extra_rows rd = []) \<and>
     (\<forall>(s, vds) \<in> set (sheet_value_differences fd). \<forall>vd \<in> set vds. \<exists>n. loc vd = Row n)"

text \<open>The keys of the lookup dictionary of a frame, as a set.\<close>

definition key_set :: "dataframe \<Rightarrow> string list \<Rightarrow> string list set" where
  "key_set df key_columns = row_key (columns df) key_columns ` set (rows df)"

text \<open>
  The value differences that a comparison detects, taken over all common keys (keyed mode)
  or over all rows below the smaller row count (positional mode) in one piece, as the loop
  bodies of compare_sheets compute them; no chunking and no cap.
\<close>

definition detected_diffs :: "dataframe \<Rightarrow> dataframe \<Rightarrow> string list option \<Rightarrow> value_diff list" where
  "detected_diffs df1 df2 key_columns =
     (if truthy key_columns
      then (if has_all_keys df1 df2 (key_list key_columns)
            then keyed_chunk_diffs df1 df2 (key_list key_columns)
                   (common_keys df1 df2 (key_list key_columns))
            else [])
      else positional_chunk_diffs df1 df2 0 (min_rows df1 df2))"

text \<open>
  The result of compare_sheets as a function of the accumulated list \<^verbatim>\<open>value_diffs\<close>: what
  the function does apart from its two chunk loops.
\<close>

definition assemble ::
  "dataframe \<Rightarrow> dataframe \<Rightarrow> string list option \<Rightarrow> value_diff list \<Rightarrow> sheet_result" where
  "assemble df1 df2 key_columns vds =
     (if df_equals df1 df2 then init_result
      else if truthy key_columns
      then (if has_all_keys df1 df2 (key_list key_columns)
            then record_value_diffs vds
                   (track_extra_rows (key_list key_columns)
                      (extra_keys df1 df2 (key_list key_columns))
                      (track_missing_rows (key_list key_columns)
                         (missing_keys df1 df2 (key_list key_columns))
                         (column_and_count_stage df1 df2)))
            else report_missing_keys df1 df2 (key_list key_columns)
                   (column_and_count_stage df1 df2))
      else record_value_diffs vds (column_and_count_stage df1 df2))"

text \<open>
  The error details with the value differences of every sheet cut to their first 1,000
  records.
\<close>

definition first_1000 :: "file_error_details \<Rightarrow> file_error_details" where
  "first_1000 error_details =
     error_details\<lparr>sheet_value_differences :=
       map (\<lambda>(sheet, diffs). (sheet, take 1000 diffs)) (sheet_value_differences error_details)\<rparr>"




section \<open>The table of value differences in the user interface\<close>

text \<open>
  \<^verbatim>\<open>src/app.py\<close> shows the value differences of all sheets in one table: every record
  is tagged with its sheet, and when there are more than 1,000 the table is cut to the
  first 1,000 rows under the warning \<^verbatim>\<open>Showing only 1000 of N value differences\<close>.
\<close>

datatype ui_warning = ShowingOnly nat nat

definition all_diffs :: "(string \<times> value_diff list) list \<Rightarrow> (string \<times> value_diff) list" where
  "all_diffs sheet_diffs =
     concat (map (\<lambda>(sheet, diffs). map (\<lambda>diff. (sheet, diff)) diffs) sheet_diffs)"

definition display_value_differences ::
  "(string \<times> value_diff list) list \<Rightarrow> ui_warning option \<times> (string \<times> value_diff) list" where
  "display_value_differences sheet_diffs =
     (let df = all_diffs sheet_diffs
      in if length df > 1000
         then (Some (ShowingOnly 1000 (length df)), take 1000 df)
         else (None, df))"

section \<open>Properties of the stages\<close>

lemmas setter_defs = add_lines_def set_missing_columns_def set_extra_columns_def
  set_reordered_columns_def set_count_diff_def set_value_differences_def
  set_missing_rows_def set_extra_rows_def

lemma record_value_diffs_keeps [simp]:
  "column_differences (details (record_value_diffs vds r)) = column_differences (details r)"
  "row_differences (details (record_value_diffs vds r)) = row_differences (details r)"
  by (simp_all add: record_value_diffs_def setter_defs)

lemma record_value_diffs_list [simp]:
  "value_differences (details r) = [] \<Longrightarrow>
   value_differences (details (record_value_diffs vds r)) = vds"
  by (simp add: record_value_diffs_def setter_defs)

lemma track_rows_keep_columns [simp]:
  "column_differences (details (track_missing_rows kc mk r)) = column_differences (details r)"
  "column_differences (details (track_extra_rows kc ek r)) = column_differences (details r)"
  by (simp_all add: track_missing_rows_def track_extra_rows_def setter_defs)

lemma report_missing_keys_details [simp]:
  "details (report_missing_keys df1 df2 kc r) = details r"
  by (simp add: report_missing_keys_def setter_defs)

lemma compare_positional_columns:
  "compare_positional df1 df2 cs r = Inr r' \<Longrightarrow>
   column_differences (details r') = column_differences (details r)"
  by (auto simp: compare_positional_def split: sum.splits)

lemma compare_keyed_columns:
  "compare_keyed df1 df2 kc cs r = Inr r' \<Longrightarrow>
   column_differences (details r') = column_differences (details r)"
  by (auto simp: compare_keyed_def Let_def split: sum.splits)

lemma stage_reordered:
  "reordered_columns (column_differences (details (column_and_count_stage df1 df2)))
     = reordered_cols df1 df2"
  by (simp add: column_and_count_stage_def check_row_count_def check_reordered_columns_def
      check_extra_columns_def check_missing_columns_def init_result_def setter_defs Let_def
      reordered_cols_def)

lemma common_cols_set: "set (common_cols df1 df2) = set (columns df1) \<inter> set (columns df2)"
  by (auto simp: common_cols_def py_set_def)

lemma py_range_nonzero: "chunk_size \<noteq> 0 \<Longrightarrow> \<exists>starts. py_range n chunk_size = Inr starts"
  by (simp add: py_range_def)

lemma compare_sheets_returns:
  "chunk_size \<noteq> 0 \<Longrightarrow> \<exists>r. compare_sheets df1 df2 key_columns chunk_size = Inr r"
  by (simp add: compare_sheets_def compare_keyed_def compare_positional_def Let_def
      py_range_def)

lemma stage_details:
  "details (column_and_count_stage df1 df2) =
     \<lparr>column_differences =
        \<lparr>missing_columns = missing_cols df1 df2, extra_columns = extra_cols df1 df2,
         reordered_columns = reordered_cols df1 df2\<rparr>,
      row_differences =
        \<lparr>count_diff = int (length (rows df1)) - int (length (rows df2)),
         missing_rows = [], extra_rows = []\<rparr>,
      value_differences = []\<rparr>"
  by (simp add: column_and_count_stage_def check_row_count_def check_reordered_columns_def
      check_extra_columns_def check_missing_columns_def init_result_def setter_defs Let_def
      reordered_cols_def)

lemma missing_cols_set: "set (missing_cols df1 df2) = set (columns df1) - set (columns df2)"
  by (auto simp: missing_cols_def py_set_def)

lemma extra_cols_set: "set (extra_cols df1 df2) = set (columns df2) - set (columns df1)"
  by (auto simp: extra_cols_def py_set_def)

lemma reordered_cols_eq:
  "reordered_cols df1 df2 =
     filter (\<lambda>col. col \<in> set (columns df2) \<and>
                   py_index (columns df1) col \<noteq> py_index (columns df2) col) (columns df1)"
  unfolding reordered_cols_def common_cols_set by (rule filter_cong) auto

lemma has_all_keys_iff:
  "has_all_keys df1 df2 kc \<longleftrightarrow> set kc \<subseteq> set (columns df1) \<inter> set (columns df2)"
  by (auto simp: has_all_keys_def list_all_iff)

lemma compare_positional_rows:
  "compare_positional df1 df2 cs r = Inr r' \<Longrightarrow>
   row_differences (details r') = row_differences (details r)"
  by (auto simp: compare_positional_def split: sum.splits)

lemma positional_col_diffs_loc:
  "vd \<in> set (positional_col_diffs df1 df2 i e col) \<Longrightarrow> \<exists>n. loc vd = Row n"
  by (auto simp: positional_col_diffs_def)

lemma positional_value_diffs_loc:
  "vd \<in> set (positional_value_diffs df1 df2 cs starts) \<Longrightarrow> \<exists>n. loc vd = Row n"
  by (auto simp: positional_value_diffs_def positional_chunk_diffs_def
      dest: positional_col_diffs_loc)

lemma compare_positional_values:
  "compare_positional df1 df2 cs r = Inr r' \<Longrightarrow> value_differences (details r) = [] \<Longrightarrow>
   vd \<in> set (value_differences (details r')) \<Longrightarrow> \<exists>n. loc vd = Row n"
  by (auto simp: compare_positional_def py_range_def split: sum.splits if_splits
      dest: positional_value_diffs_loc)

lemma compare_sheets_no_key:
  assumes "compare_sheets df1 df2 None cs = Inr sr"
  shows "positional_details (details sr)"
proof (cases "df_equals df1 df2")
  case True
  with assms show ?thesis
    by (auto simp: compare_sheets_def init_result_def positional_details_def)
next
  case False
  with assms have p: "compare_positional df1 df2 cs (column_and_count_stage df1 df2) = Inr sr"
    by (simp add: compare_sheets_def)
  have "value_differences (details (column_and_count_stage df1 df2)) = []"
    by (simp add: stage_details)
  with p show ?thesis
    unfolding positional_details_def
    using compare_positional_rows [OF p] compare_positional_values [OF p]
    by (auto simp: stage_details)
qed

lemma update_all:
  "\<forall>(s, x) \<in> set al. P x \<Longrightarrow> P v \<Longrightarrow> \<forall>(s, x) \<in> set (AList.update k v al). P x"
  by (induct al) auto

lemma update_error_details_positional:
  assumes "positional_details sd" "positional_files fd"
  shows "positional_files (update_error_details name sd fd)"
proof -
  from assms have
    "\<forall>(s, rd) \<in> set (AList.update name (row_differences sd) (sheet_row_differences fd)).
        missing_rows rd = [] \<and> extra_rows rd = []"
    by (intro update_all) (auto simp: positional_files_def positional_details_def)
  moreover from assms have
    "\<forall>(s, vds) \<in> set (AList.update name (value_differences sd) (sheet_value_differences fd)).
        \<forall>vd \<in> set vds. \<exists>n. loc vd = Row n"
    by (intro update_all) (auto simp: positional_files_def positional_details_def)
  ultimately show ?thesis
    using assms
    by (simp add: positional_files_def update_error_details_def Let_def
        col_diffs_truthy_def row_diffs_truthy_def)
qed

lemma merge_sheet_positional:
  assumes "positional_details (details sr)" "positional_files (file_details res)"
  shows "positional_files (file_details (merge_sheet sheet sr res))"
  using update_error_details_positional [OF assms, of sheet]
  by (simp add: merge_sheet_def extend_reports_def Let_def col_diffs_truthy_def)

lemma compare_common_sheet_positional:
  assumes "positional_files (file_details res)"
  shows "positional_files (file_details (compare_common_sheet d1 d2 sheet res))"
  using assms
  by (auto simp: compare_common_sheet_def merge_sheet_positional compare_sheets_no_key
      split: option.splits sum.splits)

lemma fold_common_sheets_positional:
  "positional_files (file_details res) \<Longrightarrow>
   positional_files (file_details (fold (compare_common_sheet d1 d2) common res))"
  by (induction common arbitrary: res) (simp_all add: compare_common_sheet_positional)

lemma init_positional: "positional_files (file_details init_files_result)"
  by (simp add: positional_files_def init_files_result_def)

lemma note_sheets_positional:
  "positional_files (file_details (note_missing_sheets ms res)) = positional_files (file_details res)"
  "positional_files (file_details (note_extra_sheets es res)) = positional_files (file_details res)"
  by (simp_all add: note_missing_sheets_def note_extra_sheets_def positional_files_def)

lemma compare_excel_positional:
  "compare_excel n1 d1 n2 d2 = Inr res \<Longrightarrow> positional_files (file_details res)"
  by (auto simp: compare_excel_def Let_def split: if_splits
      intro!: fold_common_sheets_positional simp: note_sheets_positional init_positional)

lemma compare_csv_positional:
  "compare_csv df1 df2 = Inr res \<Longrightarrow> positional_files (file_details res)"
  by (auto simp: compare_csv_def Let_def extend_reports_def split: sum.splits
      intro!: update_error_details_positional compare_sheets_no_key init_positional)

lemma compare_same_type_positional:
  "compare_same_type data1 data2 = Inr res \<Longrightarrow> positional_files (file_details res)"
  by (cases "(data1, data2)" rule: compare_same_type.cases)
     (auto simp: init_positional dest: compare_excel_positional compare_csv_positional)

lemma compare_files_positional:
  "compare_files data1 data2 = Inr res \<Longrightarrow> positional_files (file_details res)"
proof (cases "ftype data1 = ftype data2")
  case True
  then show "compare_files data1 data2 = Inr res \<Longrightarrow> ?thesis"
    by (simp add: compare_files_def compare_same_type_positional)
next
  case False
  then show "compare_files data1 data2 = Inr res \<Longrightarrow> ?thesis"
    by (auto simp: compare_files_def positional_files_def init_files_result_def)
qed

lemma fold_update_keys:
  "distinct (map fst d) \<Longrightarrow>
   distinct (map fst (fold (\<lambda>row d. AList.update (f row) row d) rs d)) \<and>
   set (map fst (fold (\<lambda>row d. AList.update (f row) row d) rs d)) = set (map fst d) \<union> f ` set rs"
proof (induction rs arbitrary: d)
  case Nil
  then show ?case by simp
next
  case (Cons a rs)
  have "distinct (map fst (AList.update (f a) a d))"
    using Cons.prems by (rule distinct_update)
  from Cons.IH [OF this] show ?case
    by (auto simp: update_keys split: if_splits)
qed

lemma build_dict_keys:
  "distinct (map fst (build_dict df kc))"
  "set (map fst (build_dict df kc)) = key_set df kc"
  using fold_update_keys [of "[]" "row_key (columns df) kc" "rows df"]
  by (simp_all add: build_dict_def key_set_def)

lemma missing_keys_set:
  "distinct (missing_keys df1 df2 kc)"
  "set (missing_keys df1 df2 kc) = key_set df1 kc - key_set df2 kc"
  using build_dict_keys [of df1 kc] build_dict_keys [of df2 kc]
  by (auto simp: missing_keys_def)

lemma extra_keys_set:
  "distinct (extra_keys df1 df2 kc)"
  "set (extra_keys df1 df2 kc) = key_set df2 kc - key_set df1 kc"
  using build_dict_keys [of df1 kc] build_dict_keys [of df2 kc]
  by (auto simp: extra_keys_def)

lemma common_keys_set:
  "distinct (common_keys df1 df2 kc)"
  "set (common_keys df1 df2 kc) = key_set df1 kc \<inter> key_set df2 kc"
  using build_dict_keys [of df1 kc] build_dict_keys [of df2 kc]
  by (auto simp: common_keys_def)

lemma compare_keyed_result:
  "chunk_size \<noteq> 0 \<Longrightarrow>
   \<exists>vds. compare_keyed df1 df2 kc chunk_size r =
     Inr (record_value_diffs vds
            (track_extra_rows kc (extra_keys df1 df2 kc)
               (track_missing_rows kc (missing_keys df1 df2 kc) r)))"
  by (auto simp: compare_keyed_def Let_def py_range_def)

lemma record_value_diffs_reports:
  "set (detailed_report r) \<subseteq> set (detailed_report (record_value_diffs vds r))"
  "set (summary_report r) \<subseteq> set (summary_report (record_value_diffs vds r))"
  by (auto simp: record_value_diffs_def setter_defs)

lemma track_extra_rows_fields:
  "missing_rows (row_differences (details (track_extra_rows kc ek r))) =
     missing_rows (row_differences (details r))"
  "extra_rows (row_differences (details r)) = [] \<Longrightarrow>
   extra_rows (row_differences (details (track_extra_rows kc ek r))) =
     map (key_descriptor kc) (take 100 ek)"
  "set (detailed_report r) \<subseteq> set (detailed_report (track_extra_rows kc ek r))"
  "set (summary_report r) \<subseteq> set (summary_report (track_extra_rows kc ek r))"
  "ek \<noteq> [] \<Longrightarrow> ExtraRowsDetail (length ek) \<in> set (detailed_report (track_extra_rows kc ek r))"
  "ek \<noteq> [] \<Longrightarrow> ExtraRowsCount (length ek) \<in> set (summary_report (track_extra_rows kc ek r))"
  by (auto simp: track_extra_rows_def setter_defs)

lemma track_missing_rows_fields:
  "extra_rows (row_differences (details (track_missing_rows kc mk r))) =
     extra_rows (row_differences (details r))"
  "missing_rows (row_differences (details r)) = [] \<Longrightarrow>
   missing_rows (row_differences (details (track_missing_rows kc mk r))) =
     map (key_descriptor kc) (take 100 mk)"
  "mk \<noteq> [] \<Longrightarrow> MissingRowsDetail (length mk) \<in> set (detailed_report (track_missing_rows kc mk r))"
  "mk \<noteq> [] \<Longrightarrow> MissingRowsCount (length mk) \<in> set (summary_report (track_missing_rows kc mk r))"
  by (auto simp: track_missing_rows_def setter_defs)

lemma slices_cover:
  "0 < step \<Longrightarrow> length xs \<le> stop \<Longrightarrow>
   concat (map (\<lambda>i. take step (drop i xs)) (range_from i stop step)) = drop i xs"
proof (induction i stop step rule: range_from.induct)
  case (1 i stop step)
  show ?case
  proof (cases "stop \<le> i")
    case True
    with 1(3) show ?thesis by (simp add: range_from.simps [of i stop step])
  next
    case False
    with 1 have "concat (map (\<lambda>i. take step (drop i xs)) (range_from (i + step) stop step))
        = drop (i + step) xs" by simp
    moreover have "take step (drop i xs) @ drop (i + step) xs = drop i xs"
      by (metis add.commute append_take_drop_id drop_drop)
    ultimately show ?thesis using False 1(2)
      by (simp add: range_from.simps [of i stop step])
  qed
qed

lemma concat_map_concat:
  "concat (map (\<lambda>i. concat (map g (h i))) ss) = concat (map g (concat (map h ss)))"
  by (induction ss) simp_all

lemma keyed_value_diffs_whole:
  assumes "0 < chunk_size"
  shows "keyed_value_diffs df1 df2 kc chunk_size
           (range_from 0 (length (common_keys df1 df2 kc)) (nat chunk_size)) =
         keyed_chunk_diffs df1 df2 kc (common_keys df1 df2 kc)"
proof -
  from assms have "0 < nat chunk_size" by simp
  from slices_cover [OF this order_refl, of "common_keys df1 df2 kc" 0]
  show ?thesis
    by (simp add: keyed_value_diffs_def keyed_chunk_diffs_def concat_map_concat)
qed

lemma positional_col_diffs_split:
  "i \<le> m \<Longrightarrow> m \<le> n \<Longrightarrow>
   positional_col_diffs df1 df2 i n col =
     positional_col_diffs df1 df2 i m col @ positional_col_diffs df1 df2 m n col"
proof -
  assume "i \<le> m" "m \<le> n"
  then have "[i..<n] = [i..<m] @ [m..<n]"
    using upt_add_eq_append [of i m "n - m"] by simp
  then show ?thesis by (simp add: positional_col_diffs_def)
qed

lemma mset_concat_map_append:
  "mset (concat (map (\<lambda>c. a c @ b c) cs)) = mset (concat (map a cs)) + mset (concat (map b cs))"
  by (induction cs) simp_all

lemma positional_chunk_diffs_split:
  assumes "i \<le> m" "m \<le> n"
  shows "mset (positional_chunk_diffs df1 df2 i n) =
         mset (positional_chunk_diffs df1 df2 i m) + mset (positional_chunk_diffs df1 df2 m n)"
proof -
  have "positional_col_diffs df1 df2 i n =
        (\<lambda>c. positional_col_diffs df1 df2 i m c @ positional_col_diffs df1 df2 m n c)"
    by (rule ext) (rule positional_col_diffs_split [OF assms])
  then have "positional_chunk_diffs df1 df2 i n =
        concat (map (\<lambda>c. positional_col_diffs df1 df2 i m c @ positional_col_diffs df1 df2 m n c)
                  (common_cols df1 df2))"
    unfolding positional_chunk_diffs_def by (rule arg_cong)
  then show ?thesis
    by (simp add: mset_concat_map_append positional_chunk_diffs_def)
qed

lemma positional_chunk_diffs_empty:
  "n \<le> i \<Longrightarrow> positional_chunk_diffs df1 df2 i n = []"
  by (simp add: positional_chunk_diffs_def positional_col_diffs_def)

lemma positional_chunks_cover:
  "0 < step \<Longrightarrow>
   mset (concat (map (\<lambda>j. positional_chunk_diffs df1 df2 j (min (j + step) n))
                  (range_from i n step))) =
   mset (positional_chunk_diffs df1 df2 i n)"
proof (induction i n step rule: range_from.induct)
  case (1 i n step)
  show ?case
  proof (cases "n \<le> i")
    case True
    then show ?thesis
      by (simp add: range_from.simps [of i n step] positional_chunk_diffs_empty)
  next
    case False
    with 1 have ih: "mset (concat (map (\<lambda>j. positional_chunk_diffs df1 df2 j (min (j + step) n))
                  (range_from (i + step) n step))) =
         mset (positional_chunk_diffs df1 df2 (i + step) n)" by simp
    have "mset (positional_chunk_diffs df1 df2 i (min (i + step) n)) +
          mset (positional_chunk_diffs df1 df2 (i + step) n) =
          mset (positional_chunk_diffs df1 df2 i n)"
    proof (cases "i + step \<le> n")
      case True
      then show ?thesis
        using positional_chunk_diffs_split [of i "i + step" n df1 df2] by (simp add: min_def)
    next
      case False
      then show ?thesis
        by (simp add: min_def positional_chunk_diffs_empty)
    qed
    with ih False 1(2) show ?thesis
      by (simp add: range_from.simps [of i n step])
  qed
qed

lemma positional_value_diffs_whole:
  assumes "0 < chunk_size"
  shows "mset (positional_value_diffs df1 df2 chunk_size
                 (range_from 0 (min_rows df1 df2) (nat chunk_size))) =
         mset (positional_chunk_diffs df1 df2 0 (min_rows df1 df2))"
proof -
  from assms have "0 < nat chunk_size" by simp
  from positional_chunks_cover [OF this] show ?thesis
    by (simp add: positional_value_diffs_def)
qed

lemma compare_sheets_assemble:
  assumes "0 < chunk_size"
  shows "\<exists>vds. compare_sheets df1 df2 key_columns chunk_size = Inr (assemble df1 df2 key_columns vds) \<and>
               mset vds = mset (detected_diffs df1 df2 key_columns)"
proof (cases "truthy key_columns")
  case True
  let ?kc = "key_list key_columns"
  show ?thesis
  proof (cases "has_all_keys df1 df2 ?kc")
    case k: True
    let ?v = "keyed_chunk_diffs df1 df2 ?kc (common_keys df1 df2 ?kc)"
    from assms True k have
      "compare_sheets df1 df2 key_columns chunk_size = Inr (assemble df1 df2 key_columns ?v)"
      by (simp add: compare_sheets_def assemble_def compare_keyed_def Let_def py_range_def
          keyed_value_diffs_whole)
    moreover from True k have "mset ?v = mset (detected_diffs df1 df2 key_columns)"
      by (simp add: detected_diffs_def)
    ultimately show ?thesis by blast
  next
    case k: False
    from True k have
      "compare_sheets df1 df2 key_columns chunk_size = Inr (assemble df1 df2 key_columns [])"
      by (simp add: compare_sheets_def assemble_def)
    moreover from True k have "mset [] = mset (detected_diffs df1 df2 key_columns)"
      by (simp add: detected_diffs_def)
    ultimately show ?thesis by blast
  qed
next
  case False
  let ?v = "positional_value_diffs df1 df2 chunk_size
                 (range_from 0 (min_rows df1 df2) (nat chunk_size))"
  from assms False have
    "compare_sheets df1 df2 key_columns chunk_size = Inr (assemble df1 df2 key_columns ?v)"
    by (simp add: compare_sheets_def assemble_def compare_positional_def py_range_def)
  moreover from assms False have "mset ?v = mset (detected_diffs df1 df2 key_columns)"
    by (simp add: detected_diffs_def positional_value_diffs_whole)
  ultimately show ?thesis by blast
qed

lemma record_value_diffs_mset:
  assumes "mset v1 = mset v2"
  shows "detailed_report (record_value_diffs v1 r) = detailed_report (record_value_diffs v2 r)"
    and "summary_report (record_value_diffs v1 r) = summary_report (record_value_diffs v2 r)"
proof -
  from assms have "length v1 = length v2" by (metis size_mset)
  moreover from assms have "v1 = [] \<longleftrightarrow> v2 = []" by (metis mset_zero_iff)
  ultimately show
    "detailed_report (record_value_diffs v1 r) = detailed_report (record_value_diffs v2 r)"
    "summary_report (record_value_diffs v1 r) = summary_report (record_value_diffs v2 r)"
    by (simp_all add: record_value_diffs_def setter_defs)
qed

lemma track_rows_values [simp]:
  "value_differences (details (track_missing_rows kc mk r)) = value_differences (details r)"
  "value_differences (details (track_extra_rows kc ek r)) = value_differences (details r)"
  by (simp_all add: track_missing_rows_def track_extra_rows_def setter_defs)

lemma assemble_mset:
  assumes "mset v1 = mset v2"
  shows "detailed_report (assemble df1 df2 kc v1) = detailed_report (assemble df1 df2 kc v2)"
    and "summary_report (assemble df1 df2 kc v1) = summary_report (assemble df1 df2 kc v2)"
    and "column_differences (details (assemble df1 df2 kc v1)) =
         column_differences (details (assemble df1 df2 kc v2))"
    and "row_differences (details (assemble df1 df2 kc v1)) =
         row_differences (details (assemble df1 df2 kc v2))"
    and "mset (value_differences (details (assemble df1 df2 kc v1))) =
         mset (value_differences (details (assemble df1 df2 kc v2)))"
  using assms record_value_diffs_mset [OF assms]
  by (simp_all add: assemble_def stage_details)




lemma detected_positional_set:
  assumes "\<not> truthy key_columns"
  shows "set (detected_diffs df1 df2 key_columns) =
     {\<lparr>loc = Row i, column = col,
       value1 = py_str (cell_at (columns df1) (rows df1 ! i) col),
       value2 = py_str (cell_at (columns df2) (rows df2 ! i) col)\<rparr> | i col.
      i < min (length (rows df1)) (length (rows df2)) \<and>
      col \<in> set (columns df1) \<inter> set (columns df2) \<and>
      py_str (cell_at (columns df1) (rows df1 ! i) col) \<noteq>
      py_str (cell_at (columns df2) (rows df2 ! i) col)}"
  using assms
  by (auto simp: detected_diffs_def positional_chunk_diffs_def positional_col_diffs_def
      common_cols_set min_rows_def)



text \<open>On a well-formed frame a cell read by label is the cell at the position of the label.\<close>

lemma cell_at_nth:
  assumes "wf_frame df" and "row \<in> set (rows df)" and "i < length (columns df)"
  shows "cell_at (columns df) row (columns df ! i) = row ! i"
proof -
  from assms have d: "distinct (columns df)" and l: "length row = length (columns df)"
    by (auto simp: wf_frame_def list_all_iff)
  from assms(3) l have "(columns df ! i, row ! i) \<in> set (zip (columns df) row)"
    by (metis in_set_zip fst_conv snd_conv)
  with d l have "map_of (zip (columns df) row) (columns df ! i) = Some (row ! i)"
    by (simp add: map_of_is_SomeI)
  then show ?thesis by (simp add: cell_at_def)
qed

text \<open>
  The table of the user interface does say when it is cut, and gives the true total.
\<close>

lemma display_warns_when_cut:
  "fst (display_value_differences sheet_diffs) =
     (if length (all_diffs sheet_diffs) > 1000
      then Some (ShowingOnly 1000 (length (all_diffs sheet_diffs))) else None)"
  "snd (display_value_differences sheet_diffs) = take 1000 (all_diffs sheet_diffs)"
  by (simp_all add: display_value_differences_def Let_def)



lemma first_1000_fields [simp]:
  "missing_sheets (first_1000 ed) = missing_sheets ed"
  "extra_sheets (first_1000 ed) = extra_sheets ed"
  "sheet_column_differences (first_1000 ed) = sheet_column_differences ed"
  "sheet_row_differences (first_1000 ed) = sheet_row_differences ed"
  "map_of (sheet_value_differences (first_1000 ed)) k =
     map_option (take 1000) (map_of (sheet_value_differences ed) k)"
  by (simp_all add: first_1000_def map_of_map)


















text \<open>
  A run of the CSV highlighter on the second scenario of the specification: the cell of
  the one value difference is filled yellow and commented.
\<close>

lemma highlight_csv_example: "highlight_differences_csv
  (Some \<lparr>columns = [''ID'', ''Value''], rows = [[IntV 1, IntV 10], [IntV 2, IntV 20]]\<rparr>)
  (Some \<lparr>columns = [''ID'', ''Value''], rows = [[IntV 1, IntV 10], [IntV 2, IntV 25]]\<rparr>)
  \<lparr>missing_sheets = [], extra_sheets = [],
   sheet_column_differences =
     [(''data'', \<lparr>missing_columns = [], extra_columns = [], reordered_columns = []\<rparr>)],
   sheet_row_differences = [(''data'', \<lparr>count_diff = 0, missing_rows = [], extra_rows = []\<rparr>)],
   sheet_value_differences =
     [(''data'', [\<lparr>loc = Row 1, column = ''Value'', value1 = ''20'', value2 = ''25''\<rparr>])]\<rparr> True =
  Inr \<lparr>st_messages = [],
       workbook =
         [(''Summary'', summary_sheet),
          (''Data'',
           [((1, 1), \<lparr>cell_value = Some ''ID'', cell_bold = True, cell_fill = None,
                      cell_comment = None\<rparr>),
            ((1, 2), \<lparr>cell_value = Some ''Value'', cell_bold = True, cell_fill = None,
                      cell_comment = None\<rparr>),
            ((2, 1), \<lparr>cell_value = Some ''1'', cell_bold = False, cell_fill = None,
                      cell_comment = None\<rparr>),
            ((2, 2), \<lparr>cell_value = Some ''10'', cell_bold = False, cell_fill = None,
                      cell_comment = None\<rparr>),
            ((3, 1), \<lparr>cell_value = Some ''2'', cell_bold = False, cell_fill = None,
                      cell_comment = None\<rparr>),
            ((3, 2), \<lparr>cell_value = Some ''20'', cell_bold = False,
                      cell_fill = Some YELLOW_FILL,
                      cell_comment = Some (comment_text ''20'' ''25'')\<rparr>)])],
       returned_path = True\<rparr>"
  by code_simp

section \<open>The claims\<close>

subsection \<open>C1: reordered columns\<close>

text \<open>
  C1, as stated, fails. The claim says that for \<open>A\<close> with columns \<open>[x, a, b]\<close> and \<open>B\<close>
  with columns \<open>[a, b]\<close> no column is reported as reordered. The code compares the
  position of a column in the whole header of \<open>A\<close> with its position in the whole header
  of \<open>B\<close>, so the missing column \<open>x\<close> shifts \<open>a\<close> and \<open>b\<close> and both are reported.
\<close>

theorem reordered_columns_shifted_counterexample:
  "compare_sheets
     \<lparr>columns = [''x'', ''a'', ''b''], rows = [[IntV 0, IntV 1, IntV 2]]\<rparr>
     \<lparr>columns = [''a'', ''b''], rows = [[IntV 1, IntV 2]]\<rparr> None 10000 =
   Inr \<lparr>detailed_report = [MissingColumnsDetail [''x''], ReorderedColumnsDetail [''a'', ''b'']],
        summary_report = [MissingColumnsCount 1, ReorderedColumnsCount 2],
        details =
          \<lparr>column_differences =
             \<lparr>missing_columns = [''x''], extra_columns = [],
                reordered_columns = [''a'', ''b'']\<rparr>,
             row_differences = \<lparr>count_diff = 0, missing_rows = [], extra_rows = []\<rparr>,
             value_differences = []\<rparr>\<rparr>"
  by code_simp

text \<open>
  C1, amended: for every pair of tables (and every non-zero chunk size) compare_sheets
  returns, and a column of table A is in reordered_columns exactly when it is also a column
  of table B and its index in the header of A differs from its index in the header of B;
  reordered_columns lists these columns in the order of A's header.
\<close>

theorem reordered_columns_by_header_index:
  assumes "chunk_size \<noteq> 0"
  shows "\<exists>r. compare_sheets df1 df2 key_columns chunk_size = Inr r \<and>
           reordered_columns (column_differences (details r)) =
             filter (\<lambda>col. col \<in> set (columns df2) \<and>
                           py_index (columns df1) col \<noteq> py_index (columns df2) col)
               (columns df1)"
proof -
  from assms obtain r where r: "compare_sheets df1 df2 key_columns chunk_size = Inr r"
    using compare_sheets_returns by blast
  have "reordered_columns (column_differences (details r)) =
          filter (\<lambda>col. col \<in> set (columns df2) \<and>
                        py_index (columns df1) col \<noteq> py_index (columns df2) col)
            (columns df1)"
  proof (cases "df_equals df1 df2")
    case True
    then show ?thesis using r
      by (auto simp: compare_sheets_def df_equals_def init_result_def)
  next
    case False
    have eq: "reordered_cols df1 df2 =
             filter (\<lambda>col. col \<in> set (columns df2) \<and>
                           py_index (columns df1) col \<noteq> py_index (columns df2) col)
               (columns df1)"
      unfolding reordered_cols_def common_cols_set by (rule filter_cong) auto
    from False r have
      "column_differences (details r) =
         column_differences (details (column_and_count_stage df1 df2))"
      by (auto simp: compare_sheets_def Let_def compare_positional_columns compare_keyed_columns
          split: if_splits)
    then show ?thesis by (simp add: stage_reordered eq)
  qed
  with r show ?thesis by blast
qed

theorem reordered_columns_by_header_index_witness:
  "(10000 :: int) \<noteq> 0 \<and>
   (\<exists>r. compare_sheets \<lparr>columns = [''a'', ''b'', ''c''], rows = [[IntV 1, IntV 2, IntV 3]]\<rparr>
          \<lparr>columns = [''c'', ''a'', ''b''], rows = [[IntV 3, IntV 1, IntV 2]]\<rparr> None 10000 = Inr r \<and>
        reordered_columns (column_differences (details r)) = [''a'', ''b'', ''c''])"
  using reordered_columns_by_header_index [of 10000
      "\<lparr>columns = [''a'', ''b'', ''c''], rows = [[IntV 1, IntV 2, IntV 3]]\<rparr>"
      "\<lparr>columns = [''c'', ''a'', ''b''], rows = [[IntV 3, IntV 1, IntV 2]]\<rparr>" None]
  by simp

subsection \<open>C2: normalisation of cell values\<close>

text \<open>
  C2 says that in both modes a missing cell is compared and reported as the string
  \<open>NaN\<close>. Keyed mode does so (\<^const>\<open>keyed_str\<close>). Positional mode renders the cells with
  \<^verbatim>\<open>astype(str)\<close> and \<^verbatim>\<open>str\<close>, without the test for a missing value that keyed mode
  makes: for a missing cell in A against the text \<open>x\<close> in B, compared by position, the
  value difference reported by the code has value1 \<open>nan\<close>.
\<close>

theorem positional_missing_value_renders_nan:
  "compare_sheets
     \<lparr>columns = [''ID'', ''Value''], rows = [[IntV 1, Missing]]\<rparr>
     \<lparr>columns = [''ID'', ''Value''], rows = [[IntV 1, StrV ''x'']]\<rparr> None 10000 =
   Inr \<lparr>detailed_report = [ValueDifferencesCount 1],
        summary_report = [ValueDifferencesCount 1],
        details =
          \<lparr>column_differences =
             \<lparr>missing_columns = [], extra_columns = [], reordered_columns = []\<rparr>,
           row_differences = \<lparr>count_diff = 0, missing_rows = [], extra_rows = []\<rparr>,
           value_differences =
             [\<lparr>loc = Row 0, column = ''Value'', value1 = ''nan'', value2 = ''x''\<rparr>]\<rparr>\<rparr>"
  by code_simp

subsection \<open>C3: key columns that are not in both tables\<close>

text \<open>
  C3, as stated, fails for a table compared with an identical one: the fast path returns
  the empty result before the key columns are looked at, so a key column that neither
  table has is not reported.
\<close>

theorem key_columns_not_found_counterexample:
  "compare_sheets
     \<lparr>columns = [''ID'', ''Value''], rows = [[IntV 1, IntV 10]]\<rparr>
     \<lparr>columns = [''ID'', ''Value''], rows = [[IntV 1, IntV 10]]\<rparr>
     (Some [''Code'']) 10000 =
   Inr \<lparr>detailed_report = [], summary_report = [],
          details = \<lparr>column_differences =
                       \<lparr>missing_columns = [], extra_columns = [], reordered_columns = []\<rparr>,
                     row_differences = \<lparr>count_diff = 0, missing_rows = [], extra_rows = []\<rparr>,
                     value_differences = []\<rparr>\<rparr>"
  by code_simp

text \<open>
  C3, amended: for every pair of tables that are not identical (\<open>df1.equals(df2)\<close> is
  false) and every non-empty key_columns list with a key column absent from either table,
  compare_sheets returns (for every chunk size) a result whose detailed report names
  exactly the key columns absent from either table, whose summary report says that the
  rows cannot be compared, whose value_differences, missing_rows and extra_rows are empty,
  and which still holds the column differences (missing, extra, reordered) and the
  row-count difference.
\<close>

theorem key_columns_not_found:
  assumes "\<not> df_equals df1 df2"
    and "key_columns \<noteq> []"
    and "\<exists>col \<in> set key_columns. col \<notin> set (columns df1) \<or> col \<notin> set (columns df2)"
  shows "\<exists>r. compare_sheets df1 df2 (Some key_columns) chunk_size = Inr r \<and>
     KeyColumnsNotFound
       (filter (\<lambda>col. col \<notin> set (columns df1) \<or> col \<notin> set (columns df2)) key_columns)
       \<in> set (detailed_report r) \<and>
     UnableToCompareRows \<in> set (summary_report r) \<and>
     value_differences (details r) = [] \<and>
     missing_rows (row_differences (details r)) = [] \<and>
     extra_rows (row_differences (details r)) = [] \<and>
     set (missing_columns (column_differences (details r))) = set (columns df1) - set (columns df2) \<and>
     set (extra_columns (column_differences (details r))) = set (columns df2) - set (columns df1) \<and>
     reordered_columns (column_differences (details r)) =
       filter (\<lambda>col. col \<in> set (columns df2) \<and>
                     py_index (columns df1) col \<noteq> py_index (columns df2) col) (columns df1) \<and>
     count_diff (row_differences (details r)) =
       int (length (rows df1)) - int (length (rows df2))"
proof -
  from assms(3) have nk: "\<not> has_all_keys df1 df2 key_columns"
    by (auto simp: has_all_keys_iff)
  let ?r = "report_missing_keys df1 df2 key_columns (column_and_count_stage df1 df2)"
  from assms(1,2) nk have r: "compare_sheets df1 df2 (Some key_columns) chunk_size = Inr ?r"
    by (simp add: compare_sheets_def)
  have d: "details ?r = details (column_and_count_stage df1 df2)" by simp
  have l1: "KeyColumnsNotFound
       (filter (\<lambda>col. col \<notin> set (columns df1) \<or> col \<notin> set (columns df2)) key_columns)
       \<in> set (detailed_report ?r)"
    by (simp add: report_missing_keys_def add_lines_def missing_key_cols_def)
  have l2: "UnableToCompareRows \<in> set (summary_report ?r)"
    by (simp add: report_missing_keys_def add_lines_def)
  have l3: "details ?r =
     \<lparr>column_differences =
        \<lparr>missing_columns = missing_cols df1 df2, extra_columns = extra_cols df1 df2,
         reordered_columns = reordered_cols df1 df2\<rparr>,
      row_differences =
        \<lparr>count_diff = int (length (rows df1)) - int (length (rows df2)),
         missing_rows = [], extra_rows = []\<rparr>,
      value_differences = []\<rparr>"
    by (simp only: d stage_details)
  show ?thesis
    apply (rule exI [of _ ?r])
    apply (intro conjI)
             apply (rule r)
            apply (rule l1)
           apply (rule l2)
          apply (simp_all only: l3)
          apply (simp_all add: missing_cols_set extra_cols_set reordered_cols_eq)
    done
qed

theorem key_columns_not_found_witness:
  "\<not> df_equals \<lparr>columns = [''ID'', ''Value''], rows = [[IntV 1, IntV 10], [IntV 2, IntV 20]]\<rparr>
       \<lparr>columns = [''ID'', ''Value''], rows = [[IntV 1, IntV 11]]\<rparr> \<and>
   [''Code'', ''ID''] \<noteq> [] \<and>
   (\<exists>col \<in> set [''Code'', ''ID'']. col \<notin> set [''ID'', ''Value''] \<or> col \<notin> set [''ID'', ''Value'']) \<and>
   (\<exists>r. compare_sheets
          \<lparr>columns = [''ID'', ''Value''], rows = [[IntV 1, IntV 10], [IntV 2, IntV 20]]\<rparr>
          \<lparr>columns = [''ID'', ''Value''], rows = [[IntV 1, IntV 11]]\<rparr>
          (Some [''Code'', ''ID'']) 10000 = Inr r \<and>
        KeyColumnsNotFound [''Code''] \<in> set (detailed_report r) \<and>
        UnableToCompareRows \<in> set (summary_report r) \<and>
        value_differences (details r) = [] \<and>
        missing_rows (row_differences (details r)) = [] \<and>
        extra_rows (row_differences (details r)) = [] \<and>
        count_diff (row_differences (details r)) = 1)"
  using key_columns_not_found
    [of "\<lparr>columns = [''ID'', ''Value''], rows = [[IntV 1, IntV 10], [IntV 2, IntV 20]]\<rparr>"
      "\<lparr>columns = [''ID'', ''Value''], rows = [[IntV 1, IntV 11]]\<rparr>" "[''Code'', ''ID'']" 10000]
  by (auto simp: df_equals_def)

subsection \<open>C4: identity\<close>

text \<open>
  C4: for every table \<open>T\<close>, whatever the key columns and the chunk size, compare_sheets of
  \<open>T\<close> with itself leaves by the fast path with the initial result: both reports empty,
  no missing, extra or reordered column, count_diff zero, no missing or extra row, no
  value difference.
\<close>

theorem compare_sheets_identity:
  "compare_sheets T T key_columns chunk_size =
     Inr \<lparr>detailed_report = [], summary_report = [],
          details = \<lparr>column_differences =
                       \<lparr>missing_columns = [], extra_columns = [], reordered_columns = []\<rparr>,
                     row_differences = \<lparr>count_diff = 0, missing_rows = [], extra_rows = []\<rparr>,
                     value_differences = []\<rparr>\<rparr>"
  by (simp add: compare_sheets_def df_equals_def init_result_def)

subsection \<open>C5: the second scenario\<close>

text \<open>
  C5: tables with columns \<open>[ID, Value]\<close>, rows \<open>(1,10), (2,20)\<close> in A and \<open>(1,10), (2,25)\<close>
  in B, compared under the key \<open>[ID]\<close>, give exactly one value difference, with key
  \<open>{ID: 2}\<close>, column \<open>Value\<close>, value1 \<open>20\<close> and value2 \<open>25\<close>, and no column, row-count or
  missing/extra-row difference.
\<close>

theorem scenario_two_keyed:
  "compare_sheets
     \<lparr>columns = [''ID'', ''Value''], rows = [[IntV 1, IntV 10], [IntV 2, IntV 20]]\<rparr>
     \<lparr>columns = [''ID'', ''Value''], rows = [[IntV 1, IntV 10], [IntV 2, IntV 25]]\<rparr>
     (Some [''ID'']) 10000 =
   Inr \<lparr>detailed_report = [ValueDifferencesCount 1],
        summary_report = [ValueDifferencesCount 1],
        details =
          \<lparr>column_differences =
             \<lparr>missing_columns = [], extra_columns = [], reordered_columns = []\<rparr>,
           row_differences = \<lparr>count_diff = 0, missing_rows = [], extra_rows = []\<rparr>,
           value_differences =
             [\<lparr>loc = Key [(''ID'', ''2'')], column = ''Value'',
               value1 = ''20'', value2 = ''25''\<rparr>]\<rparr>\<rparr>"
  by code_simp

subsection \<open>C6: the cap on enumerated missing and extra rows\<close>

text \<open>
  C6: in keyed mode (tables not identical, key columns present in both, non-zero chunk
  size) missing_rows holds the descriptors of the first 100 keys found only in A and
  extra_rows those of the first 100 keys found only in B, so each list has at most 100
  entries, while the lines of the detailed and the summary report give the full numbers
  of A-only and of B-only keys (a line is written when the number is not zero). With 150
  rows present only in A the list has at most 100 entries and the reported count is 150.
\<close>

theorem keyed_rows_capped:
  assumes "\<not> df_equals df1 df2"
    and "key_columns \<noteq> []"
    and "set key_columns \<subseteq> set (columns df1) \<inter> set (columns df2)"
    and "chunk_size \<noteq> 0"
  shows "\<exists>r. compare_sheets df1 df2 (Some key_columns) chunk_size = Inr r \<and>
     missing_rows (row_differences (details r)) =
       map (key_descriptor key_columns) (take 100 (missing_keys df1 df2 key_columns)) \<and>
     extra_rows (row_differences (details r)) =
       map (key_descriptor key_columns) (take 100 (extra_keys df1 df2 key_columns)) \<and>
     length (missing_rows (row_differences (details r))) \<le> 100 \<and>
     length (extra_rows (row_differences (details r))) \<le> 100 \<and>
     (missing_keys df1 df2 key_columns \<noteq> [] \<longrightarrow>
        MissingRowsDetail (length (missing_keys df1 df2 key_columns)) \<in> set (detailed_report r) \<and>
        MissingRowsCount (length (missing_keys df1 df2 key_columns)) \<in> set (summary_report r)) \<and>
     (extra_keys df1 df2 key_columns \<noteq> [] \<longrightarrow>
        ExtraRowsDetail (length (extra_keys df1 df2 key_columns)) \<in> set (detailed_report r) \<and>
        ExtraRowsCount (length (extra_keys df1 df2 key_columns)) \<in> set (summary_report r)) \<and>
     length (missing_keys df1 df2 key_columns) =
       card (key_set df1 key_columns - key_set df2 key_columns) \<and>
     length (extra_keys df1 df2 key_columns) =
       card (key_set df2 key_columns - key_set df1 key_columns)"
proof -
  let ?mk = "missing_keys df1 df2 key_columns" and ?ek = "extra_keys df1 df2 key_columns"
  let ?s = "column_and_count_stage df1 df2"
  let ?r1 = "track_missing_rows key_columns ?mk ?s"
  let ?r2 = "track_extra_rows key_columns ?ek ?r1"
  from assms(4) obtain vds where
    k: "compare_keyed df1 df2 key_columns chunk_size ?s = Inr (record_value_diffs vds ?r2)"
    using compare_keyed_result by blast
  let ?r = "record_value_diffs vds ?r2"
  from assms(1-3) k have r: "compare_sheets df1 df2 (Some key_columns) chunk_size = Inr ?r"
    by (simp add: compare_sheets_def has_all_keys_iff)
  have m: "missing_rows (row_differences (details ?r)) = map (key_descriptor key_columns) (take 100 ?mk)"
    by (simp add: track_extra_rows_fields track_missing_rows_fields stage_details)
  have e: "extra_rows (row_differences (details ?r)) = map (key_descriptor key_columns) (take 100 ?ek)"
    by (simp add: track_extra_rows_fields track_missing_rows_fields stage_details)
  have lm: "?mk \<noteq> [] \<Longrightarrow> MissingRowsDetail (length ?mk) \<in> set (detailed_report ?r) \<and>
        MissingRowsCount (length ?mk) \<in> set (summary_report ?r)"
    using track_missing_rows_fields(3,4) [of ?mk key_columns ?s]
      track_extra_rows_fields(3,4) [of ?r1 key_columns ?ek]
      record_value_diffs_reports [of ?r2 vds]
    by blast
  have le: "?ek \<noteq> [] \<Longrightarrow> ExtraRowsDetail (length ?ek) \<in> set (detailed_report ?r) \<and>
        ExtraRowsCount (length ?ek) \<in> set (summary_report ?r)"
    using track_extra_rows_fields(5,6) [of ?ek key_columns ?r1]
      record_value_diffs_reports [of ?r2 vds]
    by blast
  have cm: "length ?mk = card (key_set df1 key_columns - key_set df2 key_columns)"
    using missing_keys_set [of df1 df2 key_columns] distinct_card by fastforce
  have ce: "length ?ek = card (key_set df2 key_columns - key_set df1 key_columns)"
    using extra_keys_set [of df1 df2 key_columns] distinct_card by fastforce
  have bm: "length (missing_rows (row_differences (details ?r))) \<le> 100"
    unfolding m by simp
  have be: "length (extra_rows (row_differences (details ?r))) \<le> 100"
    unfolding e by simp
  from r m e bm be lm le cm ce show ?thesis by blast
qed

lemma frames_150_differ: "\<not> df_equals \<lparr>columns = [''ID''], rows = map (\<lambda>i. [IntV (int i)]) [1..<151]\<rparr>
       \<lparr>columns = [''ID''], rows = [[IntV 151]]\<rparr>"
proof
  assume "df_equals \<lparr>columns = [''ID''], rows = map (\<lambda>i. [IntV (int i)]) [1..<151]\<rparr>
       \<lparr>columns = [''ID''], rows = [[IntV 151]]\<rparr>"
  then have "map (\<lambda>i. [IntV (int i)]) [1..<151] = [[IntV 151]]"
    by (simp only: df_equals_def dataframe.simps)
  then have "length (map (\<lambda>i. [IntV (int i)]) [1..<151]) = length [[IntV 151]]"
    by (rule arg_cong)
  then show False by (simp only: length_map length_upt) simp
qed

lemma missing_keys_150: "length (missing_keys \<lparr>columns = [''ID''], rows = map (\<lambda>i. [IntV (int i)]) [1..<151]\<rparr>
          \<lparr>columns = [''ID''], rows = [[IntV 151]]\<rparr> [''ID'']) = 150"
  by code_simp

lemma extra_keys_1: "length (extra_keys \<lparr>columns = [''ID''], rows = map (\<lambda>i. [IntV (int i)]) [1..<151]\<rparr>
          \<lparr>columns = [''ID''], rows = [[IntV 151]]\<rparr> [''ID'']) = 1"
  by code_simp

theorem keyed_rows_capped_witness:
  "\<not> df_equals \<lparr>columns = [''ID''], rows = map (\<lambda>i. [IntV (int i)]) [1..<151]\<rparr>
       \<lparr>columns = [''ID''], rows = [[IntV 151]]\<rparr> \<and>
   [''ID''] \<noteq> [] \<and>
   set [''ID''] \<subseteq> set (columns \<lparr>columns = [''ID''], rows = map (\<lambda>i. [IntV (int i)]) [1..<151]\<rparr>) \<inter>
                 set (columns \<lparr>columns = [''ID''], rows = [[IntV 151]]\<rparr>) \<and>
   (10000 :: int) \<noteq> 0 \<and>
   (\<exists>r. compare_sheets \<lparr>columns = [''ID''], rows = map (\<lambda>i. [IntV (int i)]) [1..<151]\<rparr>
          \<lparr>columns = [''ID''], rows = [[IntV 151]]\<rparr> (Some [''ID'']) 10000 = Inr r \<and>
        length (missing_rows (row_differences (details r))) \<le> 100 \<and>
        length (extra_rows (row_differences (details r))) \<le> 100 \<and>
        MissingRowsDetail 150 \<in> set (detailed_report r) \<and>
        MissingRowsCount 150 \<in> set (summary_report r) \<and>
        ExtraRowsDetail 1 \<in> set (detailed_report r) \<and>
        ExtraRowsCount 1 \<in> set (summary_report r))"
proof -
  let ?A = "\<lparr>columns = [''ID''], rows = map (\<lambda>i. [IntV (int i)]) [1..<151]\<rparr>"
  let ?B = "\<lparr>columns = [''ID''], rows = [[IntV 151]]\<rparr>"
  have h2: "[''ID''] \<noteq> []" by simp
  have h3: "set [''ID''] \<subseteq> set (columns ?A) \<inter> set (columns ?B)" by simp
  have h4: "(10000 :: int) \<noteq> 0" by simp
  from missing_keys_150 have m: "missing_keys ?A ?B [''ID''] \<noteq> []" by auto
  from extra_keys_1 have e: "extra_keys ?A ?B [''ID''] \<noteq> []" by auto
  note c = keyed_rows_capped [OF frames_150_differ h2 h3 h4, unfolded missing_keys_150 extra_keys_1]
  from c m e frames_150_differ h2 h3 h4 show ?thesis by blast
qed

subsection \<open>C7: no cap at detection time\<close>




subsection \<open>C8: the chunk size does not change the result\<close>

text \<open>
  C8: for every pair of tables, every key_columns and every two positive chunk sizes,
  compare_sheets returns for both, with the same detailed and summary report, the same
  column differences, the same row differences (count_diff, missing_rows, extra_rows) and
  the same value-difference records up to the order of the list (equal as multisets, so
  also the same number of records).
\<close>

theorem chunk_size_invariance:
  assumes "0 < chunk_size1" and "0 < chunk_size2"
  shows "\<exists>r1 r2. compare_sheets df1 df2 key_columns chunk_size1 = Inr r1 \<and>
                 compare_sheets df1 df2 key_columns chunk_size2 = Inr r2 \<and>
                 detailed_report r1 = detailed_report r2 \<and>
                 summary_report r1 = summary_report r2 \<and>
                 column_differences (details r1) = column_differences (details r2) \<and>
                 row_differences (details r1) = row_differences (details r2) \<and>
                 mset (value_differences (details r1)) = mset (value_differences (details r2))"
proof -
  from compare_sheets_assemble [OF assms(1)] obtain v1 where
    r1: "compare_sheets df1 df2 key_columns chunk_size1 = Inr (assemble df1 df2 key_columns v1)"
    and m1: "mset v1 = mset (detected_diffs df1 df2 key_columns)" by blast
  from compare_sheets_assemble [OF assms(2)] obtain v2 where
    r2: "compare_sheets df1 df2 key_columns chunk_size2 = Inr (assemble df1 df2 key_columns v2)"
    and m2: "mset v2 = mset (detected_diffs df1 df2 key_columns)" by blast
  from m1 m2 have m: "mset v1 = mset v2" by simp
  from r1 r2 assemble_mset [OF m, of df1 df2 key_columns] show ?thesis by blast
qed

theorem chunk_size_invariance_witness:
  "(0 :: int) < 10 \<and> (0 :: int) < 100000 \<and>
   (\<exists>r1 r2.
      compare_sheets
        \<lparr>columns = [''ID'', ''Value''], rows = [[IntV 1, IntV 10], [IntV 2, IntV 20], [IntV 3, IntV 30]]\<rparr>
        \<lparr>columns = [''ID'', ''Value''], rows = [[IntV 1, IntV 11], [IntV 2, IntV 20], [IntV 4, IntV 31]]\<rparr>
        None 10 = Inr r1 \<and>
      compare_sheets
        \<lparr>columns = [''ID'', ''Value''], rows = [[IntV 1, IntV 10], [IntV 2, IntV 20], [IntV 3, IntV 30]]\<rparr>
        \<lparr>columns = [''ID'', ''Value''], rows = [[IntV 1, IntV 11], [IntV 2, IntV 20], [IntV 4, IntV 31]]\<rparr>
        None 100000 = Inr r2 \<and>
      detailed_report r1 = detailed_report r2 \<and>
      summary_report r1 = summary_report r2 \<and>
      column_differences (details r1) = column_differences (details r2) \<and>
      row_differences (details r1) = row_differences (details r2) \<and>
      mset (value_differences (details r1)) = mset (value_differences (details r2)))"
  using chunk_size_invariance [of 10 100000
      "\<lparr>columns = [''ID'', ''Value''], rows = [[IntV 1, IntV 10], [IntV 2, IntV 20], [IntV 3, IntV 30]]\<rparr>"
      "\<lparr>columns = [''ID'', ''Value''], rows = [[IntV 1, IntV 11], [IntV 2, IntV 20], [IntV 4, IntV 31]]\<rparr>"
      None]
  by simp

text \<open>
  The order of the list does depend on the chunk size in positional mode: a chunk lists
  its differences column by column.
\<close>

lemma positional_order_depends_on_chunk_size:
  "compare_sheets \<lparr>columns = [''a'', ''b''], rows = [[IntV 1, IntV 2], [IntV 3, IntV 4]]\<rparr>
     \<lparr>columns = [''a'', ''b''], rows = [[IntV 5, IntV 6], [IntV 7, IntV 8]]\<rparr> None 2 =
   Inr \<lparr>detailed_report = [ValueDifferencesCount 4], summary_report = [ValueDifferencesCount 4],
        details =
          \<lparr>column_differences =
             \<lparr>missing_columns = [], extra_columns = [], reordered_columns = []\<rparr>,
           row_differences = \<lparr>count_diff = 0, missing_rows = [], extra_rows = []\<rparr>,
           value_differences =
             [\<lparr>loc = Row 0, column = ''a'', value1 = ''1'', value2 = ''5''\<rparr>,
              \<lparr>loc = Row 1, column = ''a'', value1 = ''3'', value2 = ''7''\<rparr>,
              \<lparr>loc = Row 0, column = ''b'', value1 = ''2'', value2 = ''6''\<rparr>,
              \<lparr>loc = Row 1, column = ''b'', value1 = ''4'', value2 = ''8''\<rparr>]\<rparr>\<rparr>"
  "compare_sheets \<lparr>columns = [''a'', ''b''], rows = [[IntV 1, IntV 2], [IntV 3, IntV 4]]\<rparr>
     \<lparr>columns = [''a'', ''b''], rows = [[IntV 5, IntV 6], [IntV 7, IntV 8]]\<rparr> None 1 =
   Inr \<lparr>detailed_report = [ValueDifferencesCount 4], summary_report = [ValueDifferencesCount 4],
        details =
          \<lparr>column_differences =
             \<lparr>missing_columns = [], extra_columns = [], reordered_columns = []\<rparr>,
           row_differences = \<lparr>count_diff = 0, missing_rows = [], extra_rows = []\<rparr>,
           value_differences =
             [\<lparr>loc = Row 0, column = ''a'', value1 = ''1'', value2 = ''5''\<rparr>,
              \<lparr>loc = Row 0, column = ''b'', value1 = ''2'', value2 = ''6''\<rparr>,
              \<lparr>loc = Row 1, column = ''a'', value1 = ''3'', value2 = ''7''\<rparr>,
              \<lparr>loc = Row 1, column = ''b'', value1 = ''4'', value2 = ''8''\<rparr>]\<rparr>\<rparr>"
  by code_simp+

subsection \<open>C9: inputs of different kinds\<close>

text \<open>
  C9: when the two inputs are not of the same type, compare_files returns at once: both
  reports hold the one line on the differing types, and every category of error_details
  is empty (no sheet, column, row or value difference).
\<close>

theorem compare_files_type_mismatch:
  assumes "ftype data1 \<noteq> ftype data2"
  shows "compare_files data1 data2 =
           Inr \<lparr>file_detailed_report = [FileTypesDiffer (ftype data1) (ftype data2)],
                file_summary_report = [FileTypesDiffer (ftype data1) (ftype data2)],
                file_details = \<lparr>missing_sheets = [], extra_sheets = [],
                                 sheet_column_differences = [], sheet_row_differences = [],
                                 sheet_value_differences = []\<rparr>\<rparr>"
  using assms by (simp add: compare_files_def init_files_result_def)

theorem compare_files_type_mismatch_witness:
  "ftype (CsvData \<lparr>columns = [''ID''], rows = [[IntV 1]]\<rparr>) \<noteq>
     ftype (ExcelData [''Sheet1''] [(''Sheet1'', \<lparr>columns = [''ID''], rows = [[IntV 2]]\<rparr>)]) \<and>
   compare_files (CsvData \<lparr>columns = [''ID''], rows = [[IntV 1]]\<rparr>)
       (ExcelData [''Sheet1''] [(''Sheet1'', \<lparr>columns = [''ID''], rows = [[IntV 2]]\<rparr>)]) =
     Inr \<lparr>file_detailed_report = [FileTypesDiffer (Some ''csv'') (Some ''excel'')],
          file_summary_report = [FileTypesDiffer (Some ''csv'') (Some ''excel'')],
          file_details = \<lparr>missing_sheets = [], extra_sheets = [],
                           sheet_column_differences = [], sheet_row_differences = [],
                           sheet_value_differences = []\<rparr>\<rparr>"
  using compare_files_type_mismatch [of "CsvData \<lparr>columns = [''ID''], rows = [[IntV 1]]\<rparr>"
      "ExcelData [''Sheet1''] [(''Sheet1'', \<lparr>columns = [''ID''], rows = [[IntV 2]]\<rparr>)]"]
  by simp

subsection \<open>C10: compare_files never matches rows by key\<close>

text \<open>
  C10: compare_files calls compare_sheets with the default \<open>key_columns=None\<close> only (the
  workbook branch in \<^const>\<open>compare_common_sheet\<close>, the single-table branch in
  \<^const>\<open>compare_csv\<close>), so every comparison is positional: in every result that
  compare_files returns, the missing_rows and extra_rows lists of every entry of
  row_differences are empty (surplus rows show in count_diff only), and every value
  difference is located by a row number, never by a key.
\<close>

theorem compare_files_positional_only:
  assumes "compare_files data1 data2 = Inr res"
  shows "(\<forall>(sheet, rd) \<in> set (sheet_row_differences (file_details res)).
            missing_rows rd = [] \<and> extra_rows rd = []) \<and>
         (\<forall>(sheet, vds) \<in> set (sheet_value_differences (file_details res)).
            \<forall>vd \<in> set vds. \<exists>n. loc vd = Row n)"
  using compare_files_positional [OF assms] by (simp add: positional_files_def)

theorem compare_files_positional_only_witness:
  "compare_files
     (ExcelData [''S1'', ''Old'']
        [(''S1'', \<lparr>columns = [''ID'', ''Value''],
                   rows = [[IntV 1, IntV 10], [IntV 2, IntV 20], [IntV 3, IntV 30]]\<rparr>),
         (''Old'', \<lparr>columns = [''ID''], rows = []\<rparr>)])
     (ExcelData [''S1'']
        [(''S1'', \<lparr>columns = [''ID'', ''Value''], rows = [[IntV 1, IntV 10], [IntV 2, IntV 25]]\<rparr>)]) =
   Inr \<lparr>file_detailed_report =
          [SheetMissingDetail ''Old'', RowCountDetail 1 3 2, ValueDifferencesCount 1],
        file_summary_report =
          [SheetMissingSummary ''Old'', RowCountAbs 1, ValueDifferencesCount 1],
        file_details =
          \<lparr>missing_sheets = [''Old''], extra_sheets = [],
           sheet_column_differences =
             [(''S1'', \<lparr>missing_columns = [], extra_columns = [], reordered_columns = []\<rparr>)],
           sheet_row_differences =
             [(''S1'', \<lparr>count_diff = 1, missing_rows = [], extra_rows = []\<rparr>)],
           sheet_value_differences =
             [(''S1'', [\<lparr>loc = Row 1, column = ''Value'', value1 = ''20'', value2 = ''25''\<rparr>])]\<rparr>\<rparr> \<and>
   map (\<lambda>(sheet, rd). (sheet, missing_rows rd, extra_rows rd))
     [(''S1'', \<lparr>count_diff = 1, missing_rows = [], extra_rows = []\<rparr>)] = [(''S1'', [], [])] \<and>
   map (\<lambda>(sheet, vds). (sheet, map loc vds))
     [(''S1'', [\<lparr>loc = Row 1, column = ''Value'', value1 = ''20'', value2 = ''25''\<rparr>])] =
     [(''S1'', [Row 1])]"
proof -
  have h: "compare_files
     (ExcelData [''S1'', ''Old'']
        [(''S1'', \<lparr>columns = [''ID'', ''Value''],
                   rows = [[IntV 1, IntV 10], [IntV 2, IntV 20], [IntV 3, IntV 30]]\<rparr>),
         (''Old'', \<lparr>columns = [''ID''], rows = []\<rparr>)])
     (ExcelData [''S1'']
        [(''S1'', \<lparr>columns = [''ID'', ''Value''], rows = [[IntV 1, IntV 10], [IntV 2, IntV 25]]\<rparr>)]) =
   Inr \<lparr>file_detailed_report =
          [SheetMissingDetail ''Old'', RowCountDetail 1 3 2, ValueDifferencesCount 1],
        file_summary_report =
          [SheetMissingSummary ''Old'', RowCountAbs 1, ValueDifferencesCount 1],
        file_details =
          \<lparr>missing_sheets = [''Old''], extra_sheets = [],
           sheet_column_differences =
             [(''S1'', \<lparr>missing_columns = [], extra_columns = [], reordered_columns = []\<rparr>)],
           sheet_row_differences =
             [(''S1'', \<lparr>count_diff = 1, missing_rows = [], extra_rows = []\<rparr>)],
           sheet_value_differences =
             [(''S1'', [\<lparr>loc = Row 1, column = ''Value'', value1 = ''20'', value2 = ''25''\<rparr>])]\<rparr>\<rparr>"
    by code_simp
  show ?thesis using h compare_files_positional_only [OF h] by simp
qed

end
